theory Spec2Isabelle
  imports Main "HOL-Library.Word" "HOL-Library.Signed_Division"
begin

section \<open>The profile handler of google-perftools (src/profile-handler.cc)\<close>

text \<open>
  The theory embeds \<^verbatim>\<open>src/src/profile-handler.cc\<close>: the timer event source with its
  timer-sharing detection, the handler singleton with its callback registry, and the
  signal handler.  Every public operation runs under \<^verbatim>\<open>control_lock_\<close>, and the registry
  is changed only while the signal is ignored, so the operations are modelled as atomic
  steps on a state made of the handler object and the part of the kernel it talks to.
  The trailing underscore of the C++ member names is dropped (\<^verbatim>\<open>callbacks_\<close> is
  \<open>callbacks\<close>).
\<close>

subsection \<open>Machine integers\<close>

type_synonym int32 = "32 word"
type_synonym int64 = "64 word"
type_synonym uint32 = "32 word"

text \<open>
  \<^verbatim>\<open>int32\<close> and \<^verbatim>\<open>int64\<close> values are words read by \<open>sint\<close>; comparisons of the
  source on them are the signed ones (\<open><s\<close>), and \<^verbatim>\<open>++\<close> and \<^verbatim>\<open>--\<close> wrap
  around as the two's complement machine does.
\<close>

subsection \<open>The kernel: interval timers and signal dispositions\<close>

type_synonym thread = nat

datatype itimer_which = ITIMER_REAL | ITIMER_PROF

datatype signal = SIGPROF | SIGALRM

datatype sighandler = SIG_DFL | SIG_IGN | SA_SIGACTION

record timeval =
  tv_sec :: int
  tv_usec :: int

record itimerval =
  it_interval :: timeval
  it_value :: timeval

text \<open>
  \<open>timers_shared\<close> says whether the threading system has one interval timer per process
  or one per thread; the program cannot read it and has to find it out.  The timer of
  the process is kept in slot \<open>0\<close>.  Time does not pass in the model: an armed timer keeps
  the value it was set to, which is nonzero exactly when the timer is armed.

  \<^verbatim>\<open>setitimer\<close> fails with \<^verbatim>\<open>EINVAL\<close>, and sets nothing, unless both times of the new
  value are in canonical form: seconds not negative and microseconds from 0 to 999999.  It
  returns 0 or -1 together with the kernel afterwards.
\<close>

record kernel =
  timers_shared :: bool
  itimer :: "itimer_which \<Rightarrow> thread \<Rightarrow> itimerval"
  disposition :: "signal \<Rightarrow> sighandler"

definition timer_slot :: "thread \<Rightarrow> kernel \<Rightarrow> thread" where
  "timer_slot me k = (if timers_shared k then 0 else me)"

definition timeval_valid :: "timeval \<Rightarrow> bool" where
  "timeval_valid tv = (0 \<le> tv_sec tv \<and> 0 \<le> tv_usec tv \<and> tv_usec tv < 1000000)"

definition setitimer ::
  "itimer_which \<Rightarrow> itimerval \<Rightarrow> thread \<Rightarrow> kernel \<Rightarrow> int \<times> kernel" where
  "setitimer which new_value me k =
     (if timeval_valid (it_interval new_value) \<and> timeval_valid (it_value new_value)
      then (0, k\<lparr>itimer := (itimer k)(which := (itimer k which)(timer_slot me k := new_value))\<rparr>)
      else (- 1, k))"

definition getitimer :: "itimer_which \<Rightarrow> thread \<Rightarrow> kernel \<Rightarrow> itimerval" where
  "getitimer which me k = itimer k which (timer_slot me k)"

definition sigaction :: "signal \<Rightarrow> sighandler \<Rightarrow> kernel \<Rightarrow> kernel" where
  "sigaction signum act k = k\<lparr>disposition := (disposition k)(signum := act)\<rparr>"

subsection \<open>Data of the program\<close>

text \<open>
  A token is a heap object holding a callback and its argument; the registry is a
  \<^verbatim>\<open>list<ProfileHandlerToken*>\<close>.  The objects are never changed after \<^verbatim>\<open>new\<close> and are
  owned by the registry until \<^verbatim>\<open>delete\<close>, so an entry of the list is the pointer
  together with the object it points to, and pointers are compared by address.
  Callbacks and their arguments are opaque addresses.
\<close>

type_synonym token_ptr = nat

record ProfileHandlerToken =
  callback :: nat
  callback_arg :: nat

datatype timer_sharing =
  TIMERS_UNTOUCHED | TIMERS_ONE_SET | TIMERS_SHARED | TIMERS_SEPARATE

record TimerProfileEventSource =
  timer_type :: itimer_which
  timer_sharing :: timer_sharing

record ProfileHandler =
  interrupts :: int64
  frequency :: int32
  callback_count :: int32
  callbacks :: "(token_ptr \<times> ProfileHandlerToken) list"
  event_source :: TimerProfileEventSource

record ProfileHandlerState =
  state_frequency :: int32
  state_callback_count :: int32
  state_interrupts :: int64

type_synonym world = "ProfileHandler \<times> kernel"

text \<open>
  The ways the process stops: \<^verbatim>\<open>RAW_CHECK(callback_count_ > 0, ...)\<close>,
  \<^verbatim>\<open>RAW_LOG(FATAL, "Invalid token")\<close>, and the integer division by a zero frequency in
  \<^verbatim>\<open>StartTimer\<close>.  A fatal result carries the state the process stopped in.  The
  remaining \<^verbatim>\<open>RAW_CHECK\<close>s guard \<^verbatim>\<open>sigaction\<close> and \<^verbatim>\<open>getitimer\<close>, which do not fail for
  the signals and timers used here.  \<open>KilledBySignal\<close> is the kernel's doing: the default
  action of both signals ends the process.
\<close>

datatype fatal = DivisionByZero | InvalidCallbackCount | InvalidToken | KilledBySignal

type_synonym 'a result = "(fatal \<times> world) + 'a"

definition kMaxFrequency :: int32 where
  "kMaxFrequency = 4000"

definition kDefaultFrequency :: int32 where
  "kDefaultFrequency = 100"

definition GetFrequency :: "ProfileHandler \<Rightarrow> int32" where
  "GetFrequency h = frequency h"

definition update_handler :: "(ProfileHandler \<Rightarrow> ProfileHandler) \<Rightarrow> world \<Rightarrow> world" where
  "update_handler f w = (f (fst w), snd w)"

definition update_kernel :: "(kernel \<Rightarrow> kernel) \<Rightarrow> world \<Rightarrow> world" where
  "update_kernel f w = (fst w, f (snd w))"

definition set_timer_sharing :: "timer_sharing \<Rightarrow> world \<Rightarrow> world" where
  "set_timer_sharing v =
     update_handler (\<lambda>h. h\<lparr>event_source := (event_source h)\<lparr>timer_sharing := v\<rparr>\<rparr>)"

subsection \<open>TimerProfileEventSource\<close>

definition GetSignal :: "TimerProfileEventSource \<Rightarrow> signal" where
  "GetSignal es = (if timer_type es = ITIMER_PROF then SIGPROF else SIGALRM)"

definition EnableEvents :: "world \<Rightarrow> world" where
  "EnableEvents w = w"

definition DisableEvents :: "world \<Rightarrow> world" where
  "DisableEvents w = w"

definition GetTicksSinceLastCall :: "TimerProfileEventSource \<Rightarrow> uint32" where
  "GetTicksSinceLastCall es = 1"

text \<open>
  \<open>StartTimer\<close> and \<open>StopTimer\<close> drop the value \<^verbatim>\<open>setitimer\<close> returns, as the source
  does.
\<close>

definition StartTimer :: "thread \<Rightarrow> world \<Rightarrow> world result" where
  "StartTimer me w =
     (if GetFrequency (fst w) = 0 then Inl (DivisionByZero, w)
      else
        let interval = \<lparr>tv_sec = 0, tv_usec = 1000000 sdiv sint (GetFrequency (fst w))\<rparr>;
            timer = \<lparr>it_interval = interval, it_value = interval\<rparr>
        in Inr (update_kernel
                  (\<lambda>k. snd (setitimer (timer_type (event_source (fst w))) timer me k)) w))"

definition StopTimer :: "thread \<Rightarrow> world \<Rightarrow> world" where
  "StopTimer me w =
     (let zero = \<lparr>tv_sec = 0, tv_usec = 0\<rparr>;
          timer = \<lparr>it_interval = zero, it_value = zero\<rparr>
      in update_kernel
           (\<lambda>k. snd (setitimer (timer_type (event_source (fst w))) timer me k)) w)"

definition IsTimerRunning :: "thread \<Rightarrow> world \<Rightarrow> bool" where
  "IsTimerRunning me w =
     (let current_timer = getitimer (timer_type (event_source (fst w))) me (snd w)
      in tv_sec (it_value current_timer) \<noteq> 0 \<or> tv_usec (it_value current_timer) \<noteq> 0)"

definition Timer_RegisterThread :: "int32 \<Rightarrow> thread \<Rightarrow> world \<Rightarrow> world result" where
  "Timer_RegisterThread count me w =
     (case timer_sharing (event_source (fst w)) of
        TIMERS_UNTOUCHED \<Rightarrow>
          (case StartTimer me w of
             Inl e \<Rightarrow> Inl e
           | Inr w1 \<Rightarrow> Inr (set_timer_sharing TIMERS_ONE_SET w1))
      | TIMERS_ONE_SET \<Rightarrow>
          if IsTimerRunning me w then
            (let w1 = set_timer_sharing TIMERS_SHARED w
             in if count = 0 then Inr (StopTimer me w1) else Inr w1)
          else StartTimer me (set_timer_sharing TIMERS_SEPARATE w)
      | TIMERS_SHARED \<Rightarrow> Inr w
      | TIMERS_SEPARATE \<Rightarrow> StartTimer me w)"

definition Timer_RegisteredCallback :: "int32 \<Rightarrow> thread \<Rightarrow> world \<Rightarrow> world result" where
  "Timer_RegisteredCallback new_callback_count me w =
     (if new_callback_count = 1 \<and> timer_sharing (event_source (fst w)) = TIMERS_SHARED
      then StartTimer me w else Inr w)"

definition Timer_UnregisteredCallback :: "int32 \<Rightarrow> thread \<Rightarrow> world \<Rightarrow> world" where
  "Timer_UnregisteredCallback new_callback_count me w =
     (if new_callback_count = 0 \<and> timer_sharing (event_source (fst w)) = TIMERS_SHARED
      then StopTimer me w else w)"

definition Timer_Reset :: "thread \<Rightarrow> world \<Rightarrow> world" where
  "Timer_Reset me w =
     set_timer_sharing TIMERS_UNTOUCHED
       (if timer_sharing (event_source (fst w)) = TIMERS_SHARED then StopTimer me w else w)"

subsection \<open>ProfileHandler\<close>

definition EnableHandler :: "world \<Rightarrow> world" where
  "EnableHandler w =
     (let w1 = EnableEvents w
      in update_kernel (sigaction (GetSignal (event_source (fst w1))) SA_SIGACTION) w1)"

definition DisableHandler :: "world \<Rightarrow> world" where
  "DisableHandler w =
     (let w1 = DisableEvents w
      in update_kernel (sigaction (GetSignal (event_source (fst w1))) SIG_IGN) w1)"

definition RegisterThread :: "thread \<Rightarrow> world \<Rightarrow> world result" where
  "RegisterThread me w = Timer_RegisterThread (callback_count (fst w)) me w"

text \<open>
  \<open>token\<close> is the address \<^verbatim>\<open>new ProfileHandlerToken(callback, callback_arg)\<close> returned:
  the allocator chooses it, and it differs from the address of every live object.
\<close>

definition RegisterCallback ::
  "token_ptr \<Rightarrow> nat \<Rightarrow> nat \<Rightarrow> thread \<Rightarrow> world \<Rightarrow> (token_ptr \<times> world) result" where
  "RegisterCallback token cb cb_arg me w =
     (let w1 = DisableHandler w;
          w2 = update_handler
                 (\<lambda>h. h\<lparr>callbacks :=
                          callbacks h @ [(token, \<lparr>callback = cb, callback_arg = cb_arg\<rparr>)]\<rparr>) w1;
          w3 = update_handler (\<lambda>h. h\<lparr>callback_count := callback_count h + 1\<rparr>) w2
      in case Timer_RegisteredCallback (callback_count (fst w3)) me w3 of
           Inl e \<Rightarrow> Inl e
         | Inr w4 \<Rightarrow> Inr (token, EnableHandler w4))"

text \<open>
  The loop of \<^verbatim>\<open>UnregisterCallback\<close>: \<open>before\<close> holds the entries the iterator has
  passed, the list argument those from the iterator on.
\<close>

fun UnregisterCallback_loop ::
  "token_ptr \<Rightarrow> thread \<Rightarrow> (token_ptr \<times> ProfileHandlerToken) list \<Rightarrow>
   (token_ptr \<times> ProfileHandlerToken) list \<Rightarrow> world \<Rightarrow> world result" where
  "UnregisterCallback_loop token me before [] w = Inl (InvalidToken, w)"
| "UnregisterCallback_loop token me before (it # rest) w =
     (if fst it = token then
        (if \<not> (0 <s callback_count (fst w)) then Inl (InvalidCallbackCount, w)
         else
           let w1 = DisableHandler w;
               w2 = update_handler (\<lambda>h. h\<lparr>callbacks := before @ rest\<rparr>) w1;
               w3 = update_handler (\<lambda>h. h\<lparr>callback_count := callback_count h - 1\<rparr>) w2;
               w4 = (if 0 <s callback_count (fst w3) then EnableHandler w3 else w3)
           in Inr (Timer_UnregisteredCallback (callback_count (fst w4)) me w4))
      else UnregisterCallback_loop token me (before @ [it]) rest w)"

definition UnregisterCallback :: "token_ptr \<Rightarrow> thread \<Rightarrow> world \<Rightarrow> world result" where
  "UnregisterCallback token me w = UnregisterCallback_loop token me [] (callbacks (fst w)) w"

text \<open>The loop of \<^verbatim>\<open>Reset\<close> deletes and erases the entry at the front until none is left.\<close>

fun Reset_loop ::
  "(token_ptr \<times> ProfileHandlerToken) list \<Rightarrow> (token_ptr \<times> ProfileHandlerToken) list" where
  "Reset_loop [] = []"
| "Reset_loop (tmp # rest) = Reset_loop rest"

definition Reset :: "thread \<Rightarrow> world \<Rightarrow> world" where
  "Reset me w =
     (let w1 = DisableHandler w;
          w2 = update_handler (\<lambda>h. h\<lparr>callbacks := Reset_loop (callbacks h)\<rparr>) w1;
          w3 = update_handler (\<lambda>h. h\<lparr>callback_count := 0\<rparr>) w2
      in Timer_Reset me w3)"

definition GetState :: "world \<Rightarrow> ProfileHandlerState \<times> world" where
  "GetState w =
     (let w1 = DisableHandler w;
          w2 = (if 0 <s callback_count (fst w1) then EnableHandler w1 else w1)
      in (\<lparr>state_frequency = frequency (fst w2),
           state_callback_count = callback_count (fst w2),
           state_interrupts = interrupts (fst w1)\<rparr>, w2))"

subsection \<open>The signal handler\<close>

text \<open>
  Callbacks are code of the consumers; the model records each call the handler makes,
  with its five arguments, in the order the calls are made.  The handler saves
  \<^verbatim>\<open>errno\<close> before and restores it after; \<^verbatim>\<open>errno\<close> is not part of the state.
\<close>

record callback_call =
  call_callback :: nat
  call_sig :: signal
  call_sinfo :: nat
  call_ucontext :: nat
  call_ticks :: uint32
  call_arg :: nat

fun SignalHandler_loop ::
  "signal \<Rightarrow> nat \<Rightarrow> nat \<Rightarrow> uint32 \<Rightarrow> (token_ptr \<times> ProfileHandlerToken) list \<Rightarrow>
   callback_call list" where
  "SignalHandler_loop sig sinfo ucontext ticks [] = []"
| "SignalHandler_loop sig sinfo ucontext ticks (it # rest) =
     \<lparr>call_callback = callback (snd it), call_sig = sig, call_sinfo = sinfo,
      call_ucontext = ucontext, call_ticks = ticks, call_arg = callback_arg (snd it)\<rparr>
     # SignalHandler_loop sig sinfo ucontext ticks rest"

text \<open>
  \<open>SignalHandler_ticks\<close> is the handler from the point where it holds the tick count:
  \<open>ticks\<close> is what \<^verbatim>\<open>event_source_->GetTicksSinceLastCall()\<close> returned.  The timer event
  source inherits the method of the base class, which returns 1; the override of the
  thread-wallclock source is in a file that is not part of the sources, so the tick count
  is a parameter.
\<close>

definition SignalHandler_ticks ::
  "uint32 \<Rightarrow> signal \<Rightarrow> nat \<Rightarrow> nat \<Rightarrow> world \<Rightarrow> callback_call list \<times> world" where
  "SignalHandler_ticks ticks sig sinfo ucontext w =
     (let w1 = update_handler (\<lambda>h. h\<lparr>interrupts := interrupts h + 1\<rparr>) w
      in (if ticks \<noteq> 0 then SignalHandler_loop sig sinfo ucontext ticks (callbacks (fst w1))
          else [], w1))"

definition SignalHandler :: "signal \<Rightarrow> nat \<Rightarrow> nat \<Rightarrow> world \<Rightarrow> callback_call list \<times> world" where
  "SignalHandler sig sinfo ucontext w =
     SignalHandler_ticks (GetTicksSinceLastCall (event_source (fst w))) sig sinfo ucontext w"

text \<open>
  The kernel runs the handler of a signal only while the handler is installed; an ignored
  signal is dropped.
\<close>

definition deliver ::
  "uint32 \<Rightarrow> signal \<Rightarrow> nat \<Rightarrow> nat \<Rightarrow> world \<Rightarrow> callback_call list \<times> world" where
  "deliver ticks sig sinfo ucontext w =
     (if disposition (snd w) sig = SA_SIGACTION
      then SignalHandler_ticks ticks sig sinfo ucontext w else ([], w))"

subsection \<open>Construction\<close>

text \<open>
  The constructor reads the frequency with
  \<^verbatim>\<open>sscanf(fr, "%u%c", &frequency_, &junk) == 1\<close>.  \<open>sscanf_u_c\<close> is that call of the C
  library: \<^verbatim>\<open>%u\<close> skips white space, takes an optional sign and the longest run of
  decimal digits, and stores the value as an \<^verbatim>\<open>unsigned int\<close> (negated modulo \<open>2^32\<close>
  after a minus sign); \<^verbatim>\<open>%c\<close> takes the next character, if there is one.  The result is
  the return value of \<^verbatim>\<open>sscanf\<close> (\<open>-1\<close> is \<^verbatim>\<open>EOF\<close>) and what was stored through the
  first pointer.  The C standard does not define what is stored for a number beyond
  \<^verbatim>\<open>UINT_MAX\<close>: that value is the parameter \<open>ovf\<close>.
\<close>

definition isspace :: "char \<Rightarrow> bool" where
  "isspace c = (c \<in> set [CHR '' '', CHR 0x09, CHR 0x0A, CHR 0x0B, CHR 0x0C, CHR 0x0D])"

definition isdigit :: "char \<Rightarrow> bool" where
  "isdigit c = (c \<in> set ''0123456789'')"

definition decimal_value :: "string \<Rightarrow> nat" where
  "decimal_value ds = foldl (\<lambda>acc c. 10 * acc + (of_char c - 48)) 0 ds"

definition sscanf_u_c :: "(bool \<Rightarrow> nat \<Rightarrow> uint32) \<Rightarrow> string \<Rightarrow> int \<times> uint32 option" where
  "sscanf_u_c ovf str =
     (let s1 = dropWhile isspace str
      in if s1 = [] then (- 1, None)
         else
           let negative = (hd s1 = CHR ''-'');
               s2 = (if hd s1 = CHR ''-'' \<or> hd s1 = CHR ''+'' then tl s1 else s1);
               digits = takeWhile isdigit s2;
               s3 = dropWhile isdigit s2;
               magnitude = decimal_value digits;
               converted =
                 (if 2 ^ 32 \<le> magnitude then ovf negative magnitude
                  else if negative then - word_of_nat magnitude
                  else word_of_nat magnitude)
           in if digits = [] then (0, None)
              else if s3 = [] then (1, Some converted)
              else (2, Some converted))"

text \<open>
  \<open>fr\<close> is the result of \<^verbatim>\<open>getenv("CPUPROFILE_FREQUENCY")\<close>, with \<open>None\<close> for
  \<^verbatim>\<open>NULL\<close>.  The value \<^verbatim>\<open>%u\<close> stored is read back as the \<^verbatim>\<open>int32\<close> that
  \<^verbatim>\<open>frequency_\<close> is.
\<close>

definition ctor_frequency :: "(bool \<Rightarrow> nat \<Rightarrow> uint32) \<Rightarrow> string option \<Rightarrow> int32" where
  "ctor_frequency ovf fr =
     (case fr of
        None \<Rightarrow> kDefaultFrequency
      | Some str \<Rightarrow>
          (case sscanf_u_c ovf str of
             (n, Some v) \<Rightarrow>
               if n = 1 \<and> 0 <s v
               then (if kMaxFrequency <s v then kMaxFrequency else v)
               else kDefaultFrequency
           | (n, None) \<Rightarrow> kDefaultFrequency))"

text \<open>
  \<open>which\<close> is the timer type of the event source \<^verbatim>\<open>BuildEventSource()\<close> made
  (\<^verbatim>\<open>ITIMER_PROF\<close> by default, \<^verbatim>\<open>ITIMER_REAL\<close> for "timer-realtime").
\<close>

definition ProfileHandler_ctor ::
  "itimer_which \<Rightarrow> (bool \<Rightarrow> nat \<Rightarrow> uint32) \<Rightarrow> string option \<Rightarrow> kernel \<Rightarrow> world" where
  "ProfileHandler_ctor which ovf fr k =
     DisableHandler
       (\<lparr>interrupts = 0, frequency = ctor_frequency ovf fr, callback_count = 0,
         callbacks = [],
         event_source = \<lparr>timer_type = which, timer_sharing = TIMERS_UNTOUCHED\<rparr>\<rparr>, k)"

subsection \<open>Sequences of operations\<close>

text \<open>
  What can happen to a handler: a call of one of its public operations, by the thread
  named in it, or the delivery of a signal by the kernel.  A registration names the address
  the allocator returned, a delivery the tick count the event source reports.  \<open>run\<close>
  stops at the first fatal result.
\<close>

datatype op =
  Op_RegisterThread thread
| Op_RegisterCallback token_ptr nat nat thread
| Op_UnregisterCallback token_ptr thread
| Op_Reset thread
| Op_GetState
| Op_Signal uint32 signal nat nat

fun step :: "op \<Rightarrow> world \<Rightarrow> world result" where
  "step (Op_RegisterThread me) w = RegisterThread me w"
| "step (Op_RegisterCallback token cb cb_arg me) w =
     (case RegisterCallback token cb cb_arg me w of
        Inl e \<Rightarrow> Inl e
      | Inr r \<Rightarrow> Inr (snd r))"
| "step (Op_UnregisterCallback token me) w = UnregisterCallback token me w"
| "step (Op_Reset me) w = Inr (Reset me w)"
| "step Op_GetState w = Inr (snd (GetState w))"
| "step (Op_Signal ticks sig sinfo ucontext) w =
     (if disposition (snd w) sig = SIG_DFL then Inl (KilledBySignal, w)
      else Inr (snd (deliver ticks sig sinfo ucontext w)))"

fun run :: "op list \<Rightarrow> world \<Rightarrow> world result" where
  "run [] w = Inr w"
| "run (x # xs) w = (case step x w of Inl e \<Rightarrow> Inl e | Inr w1 \<Rightarrow> run xs w1)"

definition is_register :: "op \<Rightarrow> bool" where
  "is_register x = (case x of Op_RegisterCallback token cb cb_arg me \<Rightarrow> True | _ \<Rightarrow> False)"

definition is_reset :: "op \<Rightarrow> bool" where
  "is_reset x = (case x of Op_Reset me \<Rightarrow> True | _ \<Rightarrow> False)"

subsection \<open>The detection state machine of the specification\<close>

text \<open>
  The detection state machine as the specification words it, to compare
  \<open>RegisterThread\<close> with: the next sharing state, and what happens to the timer of the
  calling thread, from the current state, whether the timer is observed running, and the
  callback count.
\<close>

datatype timer_action = Start_Timer | Stop_Timer | Leave_Timer

definition detection_next :: "timer_sharing \<Rightarrow> bool \<Rightarrow> timer_sharing" where
  "detection_next s running =
     (case s of
        TIMERS_UNTOUCHED \<Rightarrow> TIMERS_ONE_SET
      | TIMERS_ONE_SET \<Rightarrow> (if running then TIMERS_SHARED else TIMERS_SEPARATE)
      | TIMERS_SHARED \<Rightarrow> TIMERS_SHARED
      | TIMERS_SEPARATE \<Rightarrow> TIMERS_SEPARATE)"

definition detection_action :: "timer_sharing \<Rightarrow> bool \<Rightarrow> int32 \<Rightarrow> timer_action" where
  "detection_action s running count =
     (case s of
        TIMERS_UNTOUCHED \<Rightarrow> Start_Timer
      | TIMERS_ONE_SET \<Rightarrow>
          (if running then (if count = 0 then Stop_Timer else Leave_Timer) else Start_Timer)
      | TIMERS_SHARED \<Rightarrow> Leave_Timer
      | TIMERS_SEPARATE \<Rightarrow> Start_Timer)"

subsection \<open>Invariants\<close>

text \<open>
  The counter agrees with the length of the registry as an \<^verbatim>\<open>int32\<close>, that is modulo
  \<open>2^32\<close>.
\<close>

definition count_inv :: "world \<Rightarrow> bool" where
  "count_inv w = (callback_count (fst w) = word_of_nat (length (callbacks (fst w))))"

text \<open>
  The invariant of a handler on a kernel with one timer for the process: the counter
  agrees with the registry, the frequency is between 2 and 4000, and once the state is
  \<open>TIMERS_SHARED\<close>, with a registry an \<^verbatim>\<open>int32\<close> can count, the timer runs exactly when
  the registry is not empty.
\<close>

definition shared_timer_inv :: "world \<Rightarrow> bool" where
  "shared_timer_inv w =
     (timers_shared (snd w) \<and> count_inv w \<and>
      2 \<le> sint (frequency (fst w)) \<and> sint (frequency (fst w)) \<le> 4000 \<and>
      (timer_sharing (event_source (fst w)) = TIMERS_SHARED \<and>
       length (callbacks (fst w)) < 2 ^ 31 \<longrightarrow>
         (IsTimerRunning 0 w \<longleftrightarrow> callbacks (fst w) \<noteq> [])))"

text \<open>
  The registry is empty, the counter is 0 and the signal of the event source is ignored.
\<close>

definition quiet :: "world \<Rightarrow> bool" where
  "quiet w =
     (callbacks (fst w) = [] \<and> callback_count (fst w) = 0 \<and>
      disposition (snd w) (GetSignal (event_source (fst w))) = SIG_IGN)"

subsection \<open>Example states\<close>

text \<open>A kernel with no timer armed and every signal at its default, for the examples.\<close>

definition kernel0 :: "bool \<Rightarrow> kernel" where
  "kernel0 shared =
     \<lparr>timers_shared = shared,
      itimer = (\<lambda>which t. \<lparr>it_interval = \<lparr>tv_sec = 0, tv_usec = 0\<rparr>,
                            it_value = \<lparr>tv_sec = 0, tv_usec = 0\<rparr>\<rparr>),
      disposition = (\<lambda>s. SIG_DFL)\<rparr>"

text \<open>
  One choice of what the C library stores for a number beyond \<^verbatim>\<open>UINT_MAX\<close>, for the
  examples (none of which has such a number): the low 32 bits.
\<close>

definition ovf_truncate :: "bool \<Rightarrow> nat \<Rightarrow> uint32" where
  "ovf_truncate negative magnitude =
     (if negative then - word_of_nat magnitude else word_of_nat magnitude)"

text \<open>
  The state the examples start from: the constructor run without a frequency override on a
  kernel whose timers are shared by the threads of the process.
\<close>

definition ex_world :: world where
  "ex_world = ProfileHandler_ctor ITIMER_PROF ovf_truncate None (kernel0 True)"

text \<open>
  The constructor run with the frequency override 1, which it accepts: on the same kernel,
  and on a kernel whose profiling timer is armed when the program starts (interval timers
  are kept across \<^verbatim>\<open>execve\<close>).
\<close>

definition ex_1hz :: world where
  "ex_1hz = ProfileHandler_ctor ITIMER_PROF ovf_truncate (Some ''1'') (kernel0 True)"

definition kernel_armed :: kernel where
  "kernel_armed =
     \<lparr>timers_shared = True,
      itimer = (\<lambda>which t. \<lparr>it_interval = \<lparr>tv_sec = 0, tv_usec = 10000\<rparr>,
                            it_value = \<lparr>tv_sec = 0, tv_usec = 10000\<rparr>\<rparr>),
      disposition = (\<lambda>s. SIG_DFL)\<rparr>"

definition ex_1hz_armed :: world where
  "ex_1hz_armed = ProfileHandler_ctor ITIMER_PROF ovf_truncate (Some ''1'') kernel_armed"

text \<open>
  The example state with two callbacks registered, in the order 10, 11, after the first
  thread has registered.
\<close>

definition ex_registered :: world where
  "ex_registered =
     (case run [Op_RegisterThread 0, Op_RegisterCallback 10 1 2 0, Op_RegisterCallback 11 3 4 0]
             ex_world of
        Inr w \<Rightarrow> w
      | Inl e \<Rightarrow> snd e)"

text \<open>
  The example state in which detection is stuck: one thread has registered, on a kernel
  with a timer for each thread.
\<close>

definition ex_one_set :: world where
  "ex_one_set =
     (case RegisterThread 0 (ProfileHandler_ctor ITIMER_PROF ovf_truncate None (kernel0 False)) of
        Inr w \<Rightarrow> w
      | Inl e \<Rightarrow> snd e)"

text \<open>
  The example state with shared timers detected: two threads have registered on a kernel
  with one timer for the process, then two callbacks were registered.
\<close>

definition ex_shared :: world where
  "ex_shared =
     (case run [Op_RegisterThread 0, Op_RegisterThread 1, Op_RegisterCallback 10 1 2 0,
                Op_RegisterCallback 11 3 4 0] ex_world of
        Inr w \<Rightarrow> w
      | Inl e \<Rightarrow> snd e)"

section \<open>Properties\<close>

subsection \<open>What each operation changes\<close>

lemma update_handler_simps [simp]:
  "fst (update_handler f w) = f (fst w)" "snd (update_handler f w) = snd w"
  by (simp_all add: update_handler_def)

lemma update_kernel_simps [simp]:
  "fst (update_kernel f w) = fst w" "snd (update_kernel f w) = f (snd w)"
  by (simp_all add: update_kernel_def)

lemma sigaction_simps [simp]:
  "timers_shared (sigaction s a k) = timers_shared k"
  "itimer (sigaction s a k) = itimer k"
  "disposition (sigaction s a k) = (disposition k)(s := a)"
  by (simp_all add: sigaction_def)

lemma setitimer_simps [simp]:
  "timers_shared (snd (setitimer x v me k)) = timers_shared k"
  "disposition (snd (setitimer x v me k)) = disposition k"
  "itimer (snd (setitimer x v me k)) =
     (if timeval_valid (it_interval v) \<and> timeval_valid (it_value v)
      then (itimer k)(x := (itimer k x)(timer_slot me k := v)) else itimer k)"
  by (simp_all add: setitimer_def)

lemma timer_slot_simps [simp]:
  "timer_slot me (sigaction s a k) = timer_slot me k"
  "timer_slot me (snd (setitimer x v me' k)) = timer_slot me k"
  by (simp_all add: timer_slot_def)

lemma set_timer_sharing_simps [simp]:
  "callbacks (fst (set_timer_sharing v w)) = callbacks (fst w)"
  "callback_count (fst (set_timer_sharing v w)) = callback_count (fst w)"
  "frequency (fst (set_timer_sharing v w)) = frequency (fst w)"
  "interrupts (fst (set_timer_sharing v w)) = interrupts (fst w)"
  "timer_type (event_source (fst (set_timer_sharing v w))) = timer_type (event_source (fst w))"
  "timer_sharing (event_source (fst (set_timer_sharing v w))) = v"
  "snd (set_timer_sharing v w) = snd w"
  by (simp_all add: set_timer_sharing_def)

lemma EnableHandler_simps [simp]:
  "fst (EnableHandler w) = fst w"
  "timers_shared (snd (EnableHandler w)) = timers_shared (snd w)"
  "itimer (snd (EnableHandler w)) = itimer (snd w)"
  "disposition (snd (EnableHandler w)) =
     (disposition (snd w))(GetSignal (event_source (fst w)) := SA_SIGACTION)"
  "timer_slot me (snd (EnableHandler w)) = timer_slot me (snd w)"
  by (simp_all add: EnableHandler_def EnableEvents_def)

lemma DisableHandler_simps [simp]:
  "fst (DisableHandler w) = fst w"
  "timers_shared (snd (DisableHandler w)) = timers_shared (snd w)"
  "itimer (snd (DisableHandler w)) = itimer (snd w)"
  "disposition (snd (DisableHandler w)) =
     (disposition (snd w))(GetSignal (event_source (fst w)) := SIG_IGN)"
  "timer_slot me (snd (DisableHandler w)) = timer_slot me (snd w)"
  by (simp_all add: DisableHandler_def DisableEvents_def)

lemma StopTimer_simps [simp]:
  "fst (StopTimer me w) = fst w"
  "timers_shared (snd (StopTimer me w)) = timers_shared (snd w)"
  "disposition (snd (StopTimer me w)) = disposition (snd w)"
  "timer_slot me' (snd (StopTimer me w)) = timer_slot me' (snd w)"
  by (simp_all add: StopTimer_def Let_def)

lemma StartTimer_Inr:
  "StartTimer me w = Inr w1 \<Longrightarrow>
     fst w1 = fst w \<and> timers_shared (snd w1) = timers_shared (snd w) \<and>
     disposition (snd w1) = disposition (snd w) \<and> frequency (fst w) \<noteq> 0"
  by (auto simp: StartTimer_def Let_def GetFrequency_def split: if_splits)

lemma StartTimer_Inl:
  "StartTimer me w = Inl e \<Longrightarrow> e = (DivisionByZero, w) \<and> frequency (fst w) = 0"
  by (auto simp: StartTimer_def Let_def GetFrequency_def split: if_splits)

lemma Timer_UnregisteredCallback_simps [simp]:
  "fst (Timer_UnregisteredCallback c me w) = fst w"
  "timers_shared (snd (Timer_UnregisteredCallback c me w)) = timers_shared (snd w)"
  "disposition (snd (Timer_UnregisteredCallback c me w)) = disposition (snd w)"
  by (simp_all add: Timer_UnregisteredCallback_def)

lemma Timer_RegisteredCallback_Inr:
  "Timer_RegisteredCallback c me w = Inr w1 \<Longrightarrow>
     fst w1 = fst w \<and> timers_shared (snd w1) = timers_shared (snd w) \<and>
     disposition (snd w1) = disposition (snd w)"
  by (auto simp: Timer_RegisteredCallback_def split: if_splits dest: StartTimer_Inr)

lemma Timer_Reset_simps [simp]:
  "callbacks (fst (Timer_Reset me w)) = callbacks (fst w)"
  "callback_count (fst (Timer_Reset me w)) = callback_count (fst w)"
  "frequency (fst (Timer_Reset me w)) = frequency (fst w)"
  "interrupts (fst (Timer_Reset me w)) = interrupts (fst w)"
  "timer_type (event_source (fst (Timer_Reset me w))) = timer_type (event_source (fst w))"
  "timer_sharing (event_source (fst (Timer_Reset me w))) = TIMERS_UNTOUCHED"
  "timers_shared (snd (Timer_Reset me w)) = timers_shared (snd w)"
  "disposition (snd (Timer_Reset me w)) = disposition (snd w)"
  by (simp_all add: Timer_Reset_def)

lemma Timer_RegisterThread_Inr:
  "Timer_RegisterThread c me w = Inr w1 \<Longrightarrow>
     callbacks (fst w1) = callbacks (fst w) \<and> callback_count (fst w1) = callback_count (fst w) \<and>
     frequency (fst w1) = frequency (fst w) \<and> interrupts (fst w1) = interrupts (fst w) \<and>
     timer_type (event_source (fst w1)) = timer_type (event_source (fst w)) \<and>
     disposition (snd w1) = disposition (snd w) \<and> timers_shared (snd w1) = timers_shared (snd w)"
  by (auto simp: Timer_RegisterThread_def Let_def
      split: timer_sharing.splits sum.splits if_splits dest!: StartTimer_Inr)

lemma RegisterCallback_Inr:
  "RegisterCallback token cb cb_arg me w = Inr r \<Longrightarrow>
     fst r = token \<and>
     callbacks (fst (snd r)) = callbacks (fst w) @ [(token, \<lparr>callback = cb, callback_arg = cb_arg\<rparr>)] \<and>
     callback_count (fst (snd r)) = callback_count (fst w) + 1 \<and>
     frequency (fst (snd r)) = frequency (fst w) \<and> interrupts (fst (snd r)) = interrupts (fst w) \<and>
     event_source (fst (snd r)) = event_source (fst w) \<and>
     timers_shared (snd (snd r)) = timers_shared (snd w) \<and>
     disposition (snd (snd r)) = (disposition (snd w))(GetSignal (event_source (fst w)) := SA_SIGACTION)"
  by (auto simp: RegisterCallback_def Let_def split: sum.splits dest!: Timer_RegisteredCallback_Inr)

lemma UnregisterCallback_loop_Inr:
  "UnregisterCallback_loop token me before rest w = Inr w1 \<Longrightarrow>
     \<exists>xs it ys. rest = xs @ it # ys \<and> fst it = token \<and> token \<notin> fst ` set xs \<and>
       callbacks (fst w1) = before @ xs @ ys \<and>
       0 <s callback_count (fst w) \<and>
       callback_count (fst w1) = callback_count (fst w) - 1 \<and>
       frequency (fst w1) = frequency (fst w) \<and> interrupts (fst w1) = interrupts (fst w) \<and>
       event_source (fst w1) = event_source (fst w) \<and>
       timers_shared (snd w1) = timers_shared (snd w)"
proof (induction rest arbitrary: before)
  case Nil
  then show ?case by simp
next
  case (Cons a rest)
  show ?case
  proof (cases "fst a = token")
    case True
    with Cons.prems have pos: "0 <s callback_count (fst w)"
      by (simp split: if_splits)
    define w3 where "w3 = update_handler (\<lambda>h. h\<lparr>callback_count := callback_count h - 1\<rparr>)
        (update_handler (\<lambda>h. h\<lparr>callbacks := before @ rest\<rparr>) (DisableHandler w))"
    define w4 where "w4 = (if 0 <s callback_count (fst w3) then EnableHandler w3 else w3)"
    have "UnregisterCallback_loop token me before (a # rest) w =
            Inr (Timer_UnregisteredCallback (callback_count (fst w4)) me w4)"
      unfolding w4_def w3_def using True pos
      by (simp only: UnregisterCallback_loop.simps Let_def if_True if_False simp_thms)
    with Cons.prems have w1: "w1 = Timer_UnregisteredCallback (callback_count (fst w4)) me w4"
      by simp
    have w4: "fst w4 = fst w3" "timers_shared (snd w4) = timers_shared (snd w3)"
      by (simp_all add: w4_def)
    have f: "callbacks (fst w1) = before @ rest"
         "callback_count (fst w1) = callback_count (fst w) - 1"
         "frequency (fst w1) = frequency (fst w)" "interrupts (fst w1) = interrupts (fst w)"
         "event_source (fst w1) = event_source (fst w)"
         "timers_shared (snd w1) = timers_shared (snd w)"
      by (simp_all add: w1 w4) (simp_all add: w3_def)
    show ?thesis
      apply (rule exI[of _ "[]"], rule exI[of _ a], rule exI[of _ rest])
      using True pos f by simp
  next
    case False
    with Cons.prems have "UnregisterCallback_loop token me (before @ [a]) rest w = Inr w1" by simp
    from Cons.IH[OF this] obtain xs it ys where
      h: "rest = xs @ it # ys" "fst it = token" "token \<notin> fst ` set xs"
       "callbacks (fst w1) = (before @ [a]) @ xs @ ys"
       "0 <s callback_count (fst w)"
       "callback_count (fst w1) = callback_count (fst w) - 1"
       "frequency (fst w1) = frequency (fst w)" "interrupts (fst w1) = interrupts (fst w)"
       "event_source (fst w1) = event_source (fst w)"
       "timers_shared (snd w1) = timers_shared (snd w)" by blast
    show ?thesis
      apply (rule exI[of _ "a # xs"], rule exI[of _ it], rule exI[of _ ys])
      using h False by auto
  qed
qed


lemma Reset_loop_Nil: "Reset_loop xs = []"
  by (induction xs) simp_all

lemma Reset_simps:
  "callbacks (fst (Reset me w)) = []"
  "callback_count (fst (Reset me w)) = 0"
  "frequency (fst (Reset me w)) = frequency (fst w)"
  "interrupts (fst (Reset me w)) = interrupts (fst w)"
  "timer_type (event_source (fst (Reset me w))) = timer_type (event_source (fst w))"
  "timer_sharing (event_source (fst (Reset me w))) = TIMERS_UNTOUCHED"
  "timers_shared (snd (Reset me w)) = timers_shared (snd w)"
  "disposition (snd (Reset me w)) = (disposition (snd w))(GetSignal (event_source (fst w)) := SIG_IGN)"
  by (simp_all add: Reset_def Reset_loop_Nil Let_def)

lemma GetState_simps:
  "fst (snd (GetState w)) = fst w"
  "timers_shared (snd (snd (GetState w))) = timers_shared (snd w)"
  "itimer (snd (snd (GetState w))) = itimer (snd w)"
  "state_callback_count (fst (GetState w)) = callback_count (fst w)"
  "state_frequency (fst (GetState w)) = frequency (fst w)"
  "state_interrupts (fst (GetState w)) = interrupts (fst w)"
  by (simp_all add: GetState_def Let_def)

lemma SignalHandler_ticks_simps:
  "callbacks (fst (snd (SignalHandler_ticks ticks sig si uc w))) = callbacks (fst w)"
  "callback_count (fst (snd (SignalHandler_ticks ticks sig si uc w))) = callback_count (fst w)"
  "frequency (fst (snd (SignalHandler_ticks ticks sig si uc w))) = frequency (fst w)"
  "event_source (fst (snd (SignalHandler_ticks ticks sig si uc w))) = event_source (fst w)"
  "interrupts (fst (snd (SignalHandler_ticks ticks sig si uc w))) = interrupts (fst w) + 1"
  "snd (snd (SignalHandler_ticks ticks sig si uc w)) = snd w"
  by (simp_all add: SignalHandler_ticks_def Let_def)

lemma deliver_simps:
  "callbacks (fst (snd (deliver ticks sig si uc w))) = callbacks (fst w)"
  "callback_count (fst (snd (deliver ticks sig si uc w))) = callback_count (fst w)"
  "frequency (fst (snd (deliver ticks sig si uc w))) = frequency (fst w)"
  "event_source (fst (snd (deliver ticks sig si uc w))) = event_source (fst w)"
  "snd (snd (deliver ticks sig si uc w)) = snd w"
  by (simp_all add: deliver_def SignalHandler_ticks_simps)

subsection \<open>Evaluation of examples\<close>

lemma sint_of_nat_small: "n < 2 ^ 31 \<Longrightarrow> sint (word_of_nat n :: 32 word) = int n"
  by (simp add: signed_of_nat signed_take_bit_int_eq_self)

lemmas eval_defs = ProfileHandler_ctor_def ctor_frequency_def kDefaultFrequency_def kMaxFrequency_def
  kernel0_def RegisterThread_def Timer_RegisterThread_def StartTimer_def StopTimer_def
  IsTimerRunning_def GetFrequency_def RegisterCallback_def Timer_RegisteredCallback_def
  UnregisterCallback_def Timer_UnregisteredCallback_def Reset_def Timer_Reset_def
  GetState_def deliver_def SignalHandler_ticks_def EnableHandler_def DisableHandler_def
  EnableEvents_def DisableEvents_def GetSignal_def set_timer_sharing_def update_handler_def
  update_kernel_def setitimer_def timeval_valid_def getitimer_def sigaction_def timer_slot_def
  Let_def
  signed_divide_int_def word_sless_alt

lemmas scan_defs = ctor_frequency_def sscanf_u_c_def isspace_def isdigit_def decimal_value_def
  kDefaultFrequency_def kMaxFrequency_def Let_def word_sless_alt

subsection \<open>The invariant of the counter\<close>

lemma step_count_inv: "count_inv w \<Longrightarrow> step x w = Inr w1 \<Longrightarrow> count_inv w1"
proof (cases x)
  case (Op_RegisterThread me)
  assume "count_inv w" "step x w = Inr w1"
  with Op_RegisterThread show ?thesis
    by (auto simp: count_inv_def RegisterThread_def dest!: Timer_RegisterThread_Inr)
next
  case (Op_RegisterCallback token cb cb_arg me)
  assume "count_inv w" "step x w = Inr w1"
  with Op_RegisterCallback show ?thesis
    by (auto simp: count_inv_def split: sum.splits dest!: RegisterCallback_Inr)
next
  case (Op_UnregisterCallback token me)
  assume "count_inv w" "step x w = Inr w1"
  with Op_UnregisterCallback show ?thesis
    by (auto simp: count_inv_def UnregisterCallback_def dest!: UnregisterCallback_loop_Inr)
next
  case (Op_Reset me)
  assume "count_inv w" "step x w = Inr w1"
  with Op_Reset show ?thesis
    by (auto simp: count_inv_def Reset_simps)
next
  case Op_GetState
  assume "count_inv w" "step x w = Inr w1"
  with Op_GetState show ?thesis
    by (auto simp: count_inv_def GetState_simps)
next
  case (Op_Signal ticks sig si uc)
  assume "count_inv w" "step x w = Inr w1"
  with Op_Signal show ?thesis
    by (auto simp: count_inv_def deliver_simps split: if_splits)
qed

lemma run_count_inv: "count_inv w \<Longrightarrow> run xs w = Inr w1 \<Longrightarrow> count_inv w1"
proof (induction xs arbitrary: w)
  case Nil
  then show ?case by simp
next
  case (Cons x xs)
  then show ?case
    by (auto split: sum.splits dest: step_count_inv)
qed

lemma ctor_count_inv: "count_inv (ProfileHandler_ctor which ovf fr k)"
  by (simp add: count_inv_def ProfileHandler_ctor_def)

subsection \<open>The counter and the registry\<close>

text \<open>
  Claim C1.  After every sequence of operations on a freshly constructed handler that ends
  without a fatal error, the \<open>callback_count\<close> that \<open>GetState\<close> reports is the number of
  entries of the registry: as \<^verbatim>\<open>int32\<close> values always, and as integers whenever the
  registry has fewer than \<open>2^31\<close> entries, which is what an \<^verbatim>\<open>int32\<close> can count.
  \<open>RegisterCallback\<close> appends one entry and adds one to the counter, an
  \<open>UnregisterCallback\<close> that returns removes one entry and subtracts one, and \<open>Reset\<close>
  empties the registry and sets the counter to 0.
\<close>

theorem callback_count_equals_registry_length:
  assumes "run ops (ProfileHandler_ctor which ovf fr k) = Inr w"
  shows "state_callback_count (fst (GetState w)) = word_of_nat (length (callbacks (fst w))) \<and>
    (length (callbacks (fst w)) < 2 ^ 31 \<longrightarrow>
       sint (state_callback_count (fst (GetState w))) = int (length (callbacks (fst w)))) \<and>
    (\<forall>token cb cb_arg me r. RegisterCallback token cb cb_arg me w = Inr r \<longrightarrow>
       callbacks (fst (snd r)) =
         callbacks (fst w) @ [(token, \<lparr>callback = cb, callback_arg = cb_arg\<rparr>)] \<and>
       callback_count (fst (snd r)) = callback_count (fst w) + 1) \<and>
    (\<forall>token me w1. UnregisterCallback token me w = Inr w1 \<longrightarrow>
       length (callbacks (fst w1)) + 1 = length (callbacks (fst w)) \<and>
       callback_count (fst w1) = callback_count (fst w) - 1) \<and>
    (\<forall>me. callbacks (fst (Reset me w)) = [] \<and> callback_count (fst (Reset me w)) = 0)"
proof -
  have "count_inv w"
    using run_count_inv [OF ctor_count_inv assms] .
  then have c: "callback_count (fst w) = word_of_nat (length (callbacks (fst w)))"
    by (simp add: count_inv_def)
  have reg: "\<forall>token cb cb_arg me r. RegisterCallback token cb cb_arg me w = Inr r \<longrightarrow>
       callbacks (fst (snd r)) =
         callbacks (fst w) @ [(token, \<lparr>callback = cb, callback_arg = cb_arg\<rparr>)] \<and>
       callback_count (fst (snd r)) = callback_count (fst w) + 1"
    by (blast dest: RegisterCallback_Inr)
  have unreg: "\<forall>token me w1. UnregisterCallback token me w = Inr w1 \<longrightarrow>
       length (callbacks (fst w1)) + 1 = length (callbacks (fst w)) \<and>
       callback_count (fst w1) = callback_count (fst w) - 1"
    by (auto simp: UnregisterCallback_def dest!: UnregisterCallback_loop_Inr)
  show ?thesis
    using c reg unreg by (simp add: GetState_simps Reset_simps sint_of_nat_small)
qed

theorem callback_count_equals_registry_length_witness:
  "\<exists>w. run [Op_RegisterThread 0, Op_RegisterCallback 10 1 2 0, Op_RegisterCallback 11 3 4 0,
             Op_UnregisterCallback 10 0] ex_world = Inr w \<and>
        map fst (callbacks (fst w)) = [11] \<and>
        length (callbacks (fst w)) < 2 ^ 31 \<and>
        sint (state_callback_count (fst (GetState w))) = 1 \<and>
        (\<exists>r. RegisterCallback 12 5 6 0 w = Inr r \<and> callback_count (fst (snd r)) = 2) \<and>
        (\<exists>w1. UnregisterCallback 11 0 w = Inr w1 \<and> callback_count (fst w1) = 0) \<and>
        callback_count (fst (Reset 0 w)) = 0"
proof -
  obtain w where r: "run [Op_RegisterThread 0, Op_RegisterCallback 10 1 2 0,
      Op_RegisterCallback 11 3 4 0, Op_UnregisterCallback 10 0] ex_world = Inr w"
    by (simp add: ex_world_def eval_defs)
  have cs: "map fst (callbacks (fst w)) = [11]"
    using r by (auto simp add: ex_world_def eval_defs)
  then have len: "length (callbacks (fst w)) = 1"
    by (metis length_map list.size(3,4) One_nat_def add.left_neutral)
  note T = callback_count_equals_registry_length [OF r [unfolded ex_world_def]]
  have len31: "length (callbacks (fst w)) < 2 ^ 31"
    using len by simp
  have c: "callback_count (fst w) = 1"
    using T len by (simp add: GetState_simps)
  have s: "sint (state_callback_count (fst (GetState w))) = 1"
    using c by (simp add: GetState_simps)
  obtain r2 where r2: "RegisterCallback 12 5 6 0 w = Inr r2"
    using r by (auto simp add: ex_world_def eval_defs)
  from T r2 have "callback_count (fst (snd r2)) = callback_count (fst w) + 1"
    by blast
  with c have c2: "callback_count (fst (snd r2)) = 2"
    by simp
  obtain w1 where u: "UnregisterCallback 11 0 w = Inr w1"
    using r by (auto simp add: ex_world_def eval_defs)
  from T u have "callback_count (fst w1) = callback_count (fst w) - 1"
    by blast
  with c have c0: "callback_count (fst w1) = 0"
    by simp
  from T have rs: "callback_count (fst (Reset 0 w)) = 0"
    by blast
  have A: "\<exists>r. RegisterCallback 12 5 6 0 w = Inr r \<and> callback_count (fst (snd r)) = 2"
    using r2 c2 by (intro exI [of _ r2] conjI)
  have B: "\<exists>w1. UnregisterCallback 11 0 w = Inr w1 \<and> callback_count (fst w1) = 0"
    using u c0 by (intro exI [of _ w1] conjI)
  show ?thesis
    by (rule exI [of _ w]) (simp only: r cs len31 s A B rs simp_thms)
qed

lemma ex_registered_run:
  "run [Op_RegisterThread 0, Op_RegisterCallback 10 1 2 0, Op_RegisterCallback 11 3 4 0] ex_world
     = Inr ex_registered"
  by (simp add: ex_registered_def ex_world_def eval_defs)

lemma ex_registered_callbacks:
  "callbacks (fst ex_registered) =
     [(10, \<lparr>callback = 1, callback_arg = 2\<rparr>), (11, \<lparr>callback = 3, callback_arg = 4\<rparr>)]"
  by (simp add: ex_registered_def ex_world_def eval_defs)

subsection \<open>Unregistering\<close>

lemma UnregisterCallback_loop_unknown:
  "token \<notin> fst ` set rest \<Longrightarrow>
     UnregisterCallback_loop token me before rest w = Inl (InvalidToken, w)"
  by (induction rest arbitrary: before) auto

text \<open>
  Claim C6.  \<open>UnregisterCallback\<close> with a token that is not in the registry is fatal: the
  loop reaches the end of the list and the process stops at
  \<^verbatim>\<open>RAW_LOG(FATAL, "Invalid token")\<close>, in the state it was called in, so that no entry
  has been removed and \<open>callback_count\<close> has not changed.
\<close>

theorem unregister_unknown_token_is_fatal:
  assumes "token \<notin> fst ` set (callbacks (fst w))"
  shows "UnregisterCallback token me w = Inl (InvalidToken, w)"
  using assms by (simp add: UnregisterCallback_def UnregisterCallback_loop_unknown)

theorem unregister_unknown_token_is_fatal_witness:
  "12 \<notin> fst ` set (callbacks (fst ex_registered)) \<and>
   length (callbacks (fst ex_registered)) = 2 \<and>
   UnregisterCallback 12 0 ex_registered = Inl (InvalidToken, ex_registered)"
proof -
  have h: "12 \<notin> fst ` set (callbacks (fst ex_registered))"
    by (simp add: ex_registered_callbacks)
  show ?thesis
    using h unregister_unknown_token_is_fatal [OF h, of 0]
    by (simp add: ex_registered_callbacks)
qed

lemma UnregisterCallback_loop_found:
  "token \<in> fst ` set rest \<Longrightarrow> 0 <s callback_count (fst w) \<Longrightarrow>
     \<exists>w1. UnregisterCallback_loop token me before rest w = Inr w1"
  by (induction rest arbitrary: before) (auto simp: Let_def)

lemma StopTimer_itimer:
  "itimer (snd (StopTimer me w)) =
     (itimer (snd w))(timer_type (event_source (fst w)) :=
        (itimer (snd w) (timer_type (event_source (fst w))))
          (timer_slot me (snd w) :=
             \<lparr>it_interval = \<lparr>tv_sec = 0, tv_usec = 0\<rparr>,
              it_value = \<lparr>tv_sec = 0, tv_usec = 0\<rparr>\<rparr>))"
  by (simp add: StopTimer_def Let_def timeval_valid_def)

lemma UnregisterCallback_loop_kernel:
  "UnregisterCallback_loop token me before rest w = Inr w1 \<Longrightarrow>
     disposition (snd w1) =
       (disposition (snd w))(GetSignal (event_source (fst w)) :=
          (if 0 <s callback_count (fst w) - 1 then SA_SIGACTION else SIG_IGN)) \<and>
     itimer (snd w1) =
       (if callback_count (fst w) - 1 = 0 \<and> timer_sharing (event_source (fst w)) = TIMERS_SHARED
        then itimer (snd (StopTimer me w)) else itimer (snd w))"
proof (induction rest arbitrary: before)
  case Nil
  then show ?case by simp
next
  case (Cons a rest)
  show ?case
  proof (cases "fst a = token")
    case True
    with Cons.prems have pos: "0 <s callback_count (fst w)"
      by (simp split: if_splits)
    define w3 where "w3 = update_handler (\<lambda>h. h\<lparr>callback_count := callback_count h - 1\<rparr>)
        (update_handler (\<lambda>h. h\<lparr>callbacks := before @ rest\<rparr>) (DisableHandler w))"
    define w4 where "w4 = (if 0 <s callback_count (fst w3) then EnableHandler w3 else w3)"
    have "UnregisterCallback_loop token me before (a # rest) w =
            Inr (Timer_UnregisteredCallback (callback_count (fst w4)) me w4)"
      unfolding w4_def w3_def using True pos
      by (simp only: UnregisterCallback_loop.simps Let_def if_True if_False simp_thms)
    with Cons.prems have w1: "w1 = Timer_UnregisteredCallback (callback_count (fst w4)) me w4"
      by simp
    have w3: "callback_count (fst w3) = callback_count (fst w) - 1"
      "event_source (fst w3) = event_source (fst w)"
      "disposition (snd w3) = (disposition (snd w))(GetSignal (event_source (fst w)) := SIG_IGN)"
      "itimer (snd w3) = itimer (snd w)" "timer_slot me (snd w3) = timer_slot me (snd w)"
      by (simp_all add: w3_def)
    have w4: "fst w4 = fst w3"
      "disposition (snd w4) = (disposition (snd w))(GetSignal (event_source (fst w)) :=
          (if 0 <s callback_count (fst w) - 1 then SA_SIGACTION else SIG_IGN))"
      "itimer (snd w4) = itimer (snd w)" "timer_slot me (snd w4) = timer_slot me (snd w)"
      by (simp_all add: w4_def w3)
    have d: "disposition (snd w1) = disposition (snd w4)"
      by (simp add: w1)
    have i: "itimer (snd w1) =
       (if callback_count (fst w) - 1 = 0 \<and> timer_sharing (event_source (fst w)) = TIMERS_SHARED
        then itimer (snd (StopTimer me w)) else itimer (snd w))"
      by (simp add: w1 Timer_UnregisteredCallback_def StopTimer_itimer w4 w3)
    show ?thesis
      using d i w4 by simp
  next
    case False
    with Cons.prems have "UnregisterCallback_loop token me (before @ [a]) rest w = Inr w1"
      by simp
    from Cons.IH [OF this] show ?thesis .
  qed
qed

lemma word_of_nat_pred: "0 < n \<Longrightarrow> (word_of_nat n :: 32 word) - 1 = word_of_nat (n - 1)"
  by (cases n) simp_all

text \<open>
  Claim C5.  In every state a constructed handler reaches, with a registry of fewer than
  \<open>2^31\<close> entries (what the \<^verbatim>\<open>int32\<close> counter can count), \<open>UnregisterCallback\<close> with a
  token of the registry returns; it removes the first entry with that token and no other,
  the remaining entries keep their order, \<open>callback_count\<close> drops by one, and the signal
  handler is installed afterwards exactly when the new count is positive.  Where the
  tokens of the registry are pairwise different, as the addresses of live objects are, no
  entry with the token is left.
\<close>

theorem unregister_removes_exactly_the_token:
  assumes "run ops (ProfileHandler_ctor which ovf fr k) = Inr w"
    and "length (callbacks (fst w)) < 2 ^ 31"
    and "token \<in> fst ` set (callbacks (fst w))"
  shows "\<exists>w1 xs it ys. UnregisterCallback token me w = Inr w1 \<and>
      callbacks (fst w) = xs @ it # ys \<and> fst it = token \<and> token \<notin> fst ` set xs \<and>
      callbacks (fst w1) = xs @ ys \<and>
      callback_count (fst w1) = callback_count (fst w) - 1 \<and>
      sint (callback_count (fst w1)) = sint (callback_count (fst w)) - 1 \<and>
      (disposition (snd w1) (GetSignal (event_source (fst w1))) = SA_SIGACTION
         \<longleftrightarrow> 0 <s callback_count (fst w1)) \<and>
      (distinct (map fst (callbacks (fst w))) \<longrightarrow> token \<notin> fst ` set (callbacks (fst w1)))"
proof -
  let ?n = "length (callbacks (fst w))"
  have "count_inv w"
    using run_count_inv [OF ctor_count_inv assms(1)] .
  then have c: "callback_count (fst w) = word_of_nat ?n"
    by (simp add: count_inv_def)
  have n: "0 < ?n"
    using assms(3) by (cases "callbacks (fst w)") auto
  have sc: "sint (callback_count (fst w)) = int ?n"
    using c assms(2) by (simp add: sint_of_nat_small)
  with n have pos: "0 <s callback_count (fst w)"
    by (simp add: word_sless_alt)
  obtain w1 where u: "UnregisterCallback_loop token me [] (callbacks (fst w)) w = Inr w1"
    using UnregisterCallback_loop_found [OF assms(3) pos] by blast
  from UnregisterCallback_loop_Inr [OF u] obtain xs it ys where
    d: "callbacks (fst w) = xs @ it # ys" "fst it = token" "token \<notin> fst ` set xs"
       "callbacks (fst w1) = xs @ ys"
       "callback_count (fst w1) = callback_count (fst w) - 1"
       "event_source (fst w1) = event_source (fst w)"
    by auto
  have c1: "callback_count (fst w1) = word_of_nat (?n - 1)"
    using d(5) c n by (simp add: word_of_nat_pred)
  have lt: "?n - 1 < 2 ^ 31"
    using assms(2) by arith
  have "sint (callback_count (fst w1)) = int (?n - 1)"
    unfolding c1 by (rule sint_of_nat_small [OF lt])
  also have "\<dots> = int ?n - 1"
    using n by arith
  finally have sc1: "sint (callback_count (fst w1)) = sint (callback_count (fst w)) - 1"
    using sc by simp
  have disp: "disposition (snd w1) (GetSignal (event_source (fst w1))) = SA_SIGACTION
         \<longleftrightarrow> 0 <s callback_count (fst w1)"
    using UnregisterCallback_loop_kernel [OF u] d(5,6) by simp
  have dist: "distinct (map fst (callbacks (fst w))) \<longrightarrow>
      token \<notin> fst ` set (callbacks (fst w1))"
    using d(1,2,3,4) by auto
  have u': "UnregisterCallback token me w = Inr w1"
    using u by (simp add: UnregisterCallback_def)
  show ?thesis
    using u' d(1,2,3,4,5) sc1 disp dist by blast
qed

theorem unregister_removes_exactly_the_token_witness:
  "run [Op_RegisterThread 0, Op_RegisterCallback 10 1 2 0, Op_RegisterCallback 11 3 4 0] ex_world
     = Inr ex_registered \<and>
   length (callbacks (fst ex_registered)) < 2 ^ 31 \<and>
   10 \<in> fst ` set (callbacks (fst ex_registered)) \<and>
   distinct (map fst (callbacks (fst ex_registered))) \<and>
   (\<exists>w1. UnregisterCallback 10 0 ex_registered = Inr w1 \<and>
      callbacks (fst w1) = [(11, \<lparr>callback = 3, callback_arg = 4\<rparr>)] \<and>
      sint (callback_count (fst w1)) = 1 \<and>
      disposition (snd w1) SIGPROF = SA_SIGACTION \<and>
      10 \<notin> fst ` set (callbacks (fst w1)))"
proof -
  have h2: "length (callbacks (fst ex_registered)) < 2 ^ 31"
    by (simp add: ex_registered_callbacks)
  have h3: "10 \<in> fst ` set (callbacks (fst ex_registered))"
    by (simp add: ex_registered_callbacks)
  have h4: "distinct (map fst (callbacks (fst ex_registered)))"
    by (simp add: ex_registered_callbacks)
  have c: "sint (callback_count (fst ex_registered)) = 2"
    by (simp add: ex_registered_def ex_world_def eval_defs)
  have g: "GetSignal (event_source (fst ex_registered)) = SIGPROF"
    by (simp add: ex_registered_def ex_world_def eval_defs)
  from unregister_removes_exactly_the_token
    [OF ex_registered_run [unfolded ex_world_def] h2 h3, of 0]
  obtain w1 xs it ys where
    d: "UnregisterCallback 10 0 ex_registered = Inr w1"
       "callbacks (fst ex_registered) = xs @ it # ys" "fst it = 10" "10 \<notin> fst ` set xs"
       "callbacks (fst w1) = xs @ ys"
       "sint (callback_count (fst w1)) = sint (callback_count (fst ex_registered)) - 1"
       "disposition (snd w1) (GetSignal (event_source (fst w1))) = SA_SIGACTION
         \<longleftrightarrow> 0 <s callback_count (fst w1)"
       "distinct (map fst (callbacks (fst ex_registered))) \<longrightarrow>
          10 \<notin> fst ` set (callbacks (fst w1))"
    by blast
  have xs: "xs = []"
    using d(2,4) by (cases xs) (auto simp: ex_registered_callbacks)
  with d(2,5) have cs: "callbacks (fst w1) = [(11, \<lparr>callback = 3, callback_arg = 4\<rparr>)]"
    by (simp add: ex_registered_callbacks)
  have s1: "sint (callback_count (fst w1)) = 1"
    using d(6) c by simp
  have es: "GetSignal (event_source (fst w1)) = SIGPROF"
    using d(1) g by (auto simp: UnregisterCallback_def dest!: UnregisterCallback_loop_Inr)
  have dp: "disposition (snd w1) SIGPROF = SA_SIGACTION"
    using d(7) s1 es by (simp add: word_sless_alt)
  have nt: "10 \<notin> fst ` set (callbacks (fst w1))"
    using d(8) h4 by blast
  have E: "\<exists>w1. UnregisterCallback 10 0 ex_registered = Inr w1 \<and>
      callbacks (fst w1) = [(11, \<lparr>callback = 3, callback_arg = 4\<rparr>)] \<and>
      sint (callback_count (fst w1)) = 1 \<and>
      disposition (snd w1) SIGPROF = SA_SIGACTION \<and>
      10 \<notin> fst ` set (callbacks (fst w1))"
    using d(1) cs s1 dp nt by (intro exI [of _ w1] conjI)
  show ?thesis
    using ex_registered_run h2 h3 h4 E by (intro conjI)
qed

subsection \<open>The signal handler\<close>

lemma sint_succ_64: 
  fixes x :: "64 word"
  assumes "sint x < 2 ^ 63 - 1"
  shows "sint (x + 1) = sint x + 1"
proof -
  have "- (2 ^ 63) \<le> sint x"
    using sint_ge [of x] by simp
  with assms have "signed_take_bit 63 (sint x + 1) = sint x + 1"
    by (intro signed_take_bit_int_eq_self) simp_all
  then show ?thesis
    by (simp add: sint_word_ariths)
qed

lemma SignalHandler_loop_map:
  "SignalHandler_loop sig sinfo ucontext ticks xs =
     map (\<lambda>it. \<lparr>call_callback = callback (snd it), call_sig = sig, call_sinfo = sinfo,
                  call_ucontext = ucontext, call_ticks = ticks,
                  call_arg = callback_arg (snd it)\<rparr>) xs"
  by (induction xs) simp_all

text \<open>
  Claim C4.  For every tick count the event source reports, the signal handler adds one to
  the interrupt counter (also for the tick count 0); when the tick count is positive it
  calls the callback of every entry of the registry once, in the order of the registry,
  with the signal, its information, the context, the tick count and the entry's argument,
  and when the tick count is 0 it calls none.  It changes neither the registry nor the
  counter of callbacks, the event source or the kernel.  With the timer event source the
  tick count is 1.  The order of the registry is the order of registration: a callback
  registered now is called after all those registered before.
\<close>

theorem signal_handler_dispatch:
  "interrupts (fst (snd (SignalHandler_ticks ticks sig sinfo ucontext w))) = interrupts (fst w) + 1 \<and>
   (sint (interrupts (fst w)) < 2 ^ 63 - 1 \<longrightarrow>
      sint (interrupts (fst (snd (SignalHandler_ticks ticks sig sinfo ucontext w)))) =
        sint (interrupts (fst w)) + 1) \<and>
   fst (SignalHandler_ticks ticks sig sinfo ucontext w) =
     (if 0 < ticks
      then map (\<lambda>it. \<lparr>call_callback = callback (snd it), call_sig = sig, call_sinfo = sinfo,
                         call_ucontext = ucontext, call_ticks = ticks,
                         call_arg = callback_arg (snd it)\<rparr>) (callbacks (fst w))
      else []) \<and>
   callbacks (fst (snd (SignalHandler_ticks ticks sig sinfo ucontext w))) = callbacks (fst w) \<and>
   callback_count (fst (snd (SignalHandler_ticks ticks sig sinfo ucontext w))) =
     callback_count (fst w) \<and>
   event_source (fst (snd (SignalHandler_ticks ticks sig sinfo ucontext w))) =
     event_source (fst w) \<and>
   snd (snd (SignalHandler_ticks ticks sig sinfo ucontext w)) = snd w \<and>
   SignalHandler sig sinfo ucontext w = SignalHandler_ticks 1 sig sinfo ucontext w \<and>
   (\<forall>token cb cb_arg me r. RegisterCallback token cb cb_arg me w = Inr r \<longrightarrow>
      fst (SignalHandler_ticks ticks sig sinfo ucontext (snd r)) =
        fst (SignalHandler_ticks ticks sig sinfo ucontext w) @
        (if 0 < ticks
         then [\<lparr>call_callback = cb, call_sig = sig, call_sinfo = sinfo,
                call_ucontext = ucontext, call_ticks = ticks, call_arg = cb_arg\<rparr>]
         else []))"
proof -
  have calls: "\<And>v. fst (SignalHandler_ticks ticks sig sinfo ucontext v) =
     (if 0 < ticks
      then map (\<lambda>it. \<lparr>call_callback = callback (snd it), call_sig = sig, call_sinfo = sinfo,
                         call_ucontext = ucontext, call_ticks = ticks,
                         call_arg = callback_arg (snd it)\<rparr>) (callbacks (fst v))
      else [])"
    by (simp add: SignalHandler_ticks_def Let_def SignalHandler_loop_map word_greater_zero_iff)
  have fifo: "\<forall>token cb cb_arg me r. RegisterCallback token cb cb_arg me w = Inr r \<longrightarrow>
      fst (SignalHandler_ticks ticks sig sinfo ucontext (snd r)) =
        fst (SignalHandler_ticks ticks sig sinfo ucontext w) @
        (if 0 < ticks
         then [\<lparr>call_callback = cb, call_sig = sig, call_sinfo = sinfo,
                call_ucontext = ucontext, call_ticks = ticks, call_arg = cb_arg\<rparr>]
         else [])"
    by (auto simp: calls dest!: RegisterCallback_Inr)
  have s: "SignalHandler sig sinfo ucontext w = SignalHandler_ticks 1 sig sinfo ucontext w"
    by (simp add: SignalHandler_def GetTicksSinceLastCall_def)
  show ?thesis
    using calls [of w] fifo s by (simp add: SignalHandler_ticks_simps sint_succ_64)
qed

theorem signal_handler_dispatch_witness:
  "sint (interrupts (fst ex_registered)) < 2 ^ 63 - 1 \<and>
   sint (interrupts (fst (snd (SignalHandler_ticks 0 SIGPROF 7 8 ex_registered)))) = 1 \<and>
   fst (SignalHandler_ticks 0 SIGPROF 7 8 ex_registered) = [] \<and>
   fst (SignalHandler_ticks 3 SIGPROF 7 8 ex_registered) =
     [\<lparr>call_callback = 1, call_sig = SIGPROF, call_sinfo = 7, call_ucontext = 8,
       call_ticks = 3, call_arg = 2\<rparr>,
      \<lparr>call_callback = 3, call_sig = SIGPROF, call_sinfo = 7, call_ucontext = 8,
       call_ticks = 3, call_arg = 4\<rparr>] \<and>
   (\<exists>r. RegisterCallback 12 5 6 0 ex_registered = Inr r \<and>
      fst (SignalHandler_ticks 3 SIGPROF 7 8 (snd r)) =
        [\<lparr>call_callback = 1, call_sig = SIGPROF, call_sinfo = 7, call_ucontext = 8,
          call_ticks = 3, call_arg = 2\<rparr>,
         \<lparr>call_callback = 3, call_sig = SIGPROF, call_sinfo = 7, call_ucontext = 8,
          call_ticks = 3, call_arg = 4\<rparr>,
         \<lparr>call_callback = 5, call_sig = SIGPROF, call_sinfo = 7, call_ucontext = 8,
          call_ticks = 3, call_arg = 6\<rparr>])"
proof -
  have i: "interrupts (fst ex_registered) = 0"
    by (simp add: ex_registered_def ex_world_def eval_defs)
  obtain r where r: "RegisterCallback 12 5 6 0 ex_registered = Inr r"
    by (auto simp add: ex_registered_def ex_world_def eval_defs)
  note T0 = signal_handler_dispatch [of 0 SIGPROF 7 8 ex_registered]
  note T3 = signal_handler_dispatch [of 3 SIGPROF 7 8 ex_registered]
  have a: "sint (interrupts (fst ex_registered)) < 2 ^ 63 - 1"
    by (simp add: i)
  have b: "sint (interrupts (fst (snd (SignalHandler_ticks 0 SIGPROF 7 8 ex_registered)))) = 1"
    using T0 a i by simp
  have c: "fst (SignalHandler_ticks 0 SIGPROF 7 8 ex_registered) = []"
    using T0 by simp
  have d: "fst (SignalHandler_ticks 3 SIGPROF 7 8 ex_registered) =
     [\<lparr>call_callback = 1, call_sig = SIGPROF, call_sinfo = 7, call_ucontext = 8,
       call_ticks = 3, call_arg = 2\<rparr>,
      \<lparr>call_callback = 3, call_sig = SIGPROF, call_sinfo = 7, call_ucontext = 8,
       call_ticks = 3, call_arg = 4\<rparr>]"
    using T3 by (simp add: ex_registered_callbacks)
  from T3 r have "fst (SignalHandler_ticks 3 SIGPROF 7 8 (snd r)) =
        fst (SignalHandler_ticks 3 SIGPROF 7 8 ex_registered) @
        (if (0 :: uint32) < 3
         then [\<lparr>call_callback = 5, call_sig = SIGPROF, call_sinfo = 7,
                call_ucontext = 8, call_ticks = 3, call_arg = 6\<rparr>]
         else [])"
    by blast
  then have e: "fst (SignalHandler_ticks 3 SIGPROF 7 8 (snd r)) =
        [\<lparr>call_callback = 1, call_sig = SIGPROF, call_sinfo = 7, call_ucontext = 8,
          call_ticks = 3, call_arg = 2\<rparr>,
         \<lparr>call_callback = 3, call_sig = SIGPROF, call_sinfo = 7, call_ucontext = 8,
          call_ticks = 3, call_arg = 4\<rparr>,
         \<lparr>call_callback = 5, call_sig = SIGPROF, call_sinfo = 7, call_ucontext = 8,
          call_ticks = 3, call_arg = 6\<rparr>]"
    by (simp add: d)
  have E: "\<exists>r. RegisterCallback 12 5 6 0 ex_registered = Inr r \<and>
      fst (SignalHandler_ticks 3 SIGPROF 7 8 (snd r)) =
        [\<lparr>call_callback = 1, call_sig = SIGPROF, call_sinfo = 7, call_ucontext = 8,
          call_ticks = 3, call_arg = 2\<rparr>,
         \<lparr>call_callback = 3, call_sig = SIGPROF, call_sinfo = 7, call_ucontext = 8,
          call_ticks = 3, call_arg = 4\<rparr>,
         \<lparr>call_callback = 5, call_sig = SIGPROF, call_sinfo = 7, call_ucontext = 8,
          call_ticks = 3, call_arg = 6\<rparr>]"
    using r e by (intro exI [of _ r] conjI)
  show ?thesis
    using a b c d E by (intro conjI)
qed

subsection \<open>Starting and stopping the timer\<close>

lemma StartTimer_itimer:
  "StartTimer me w = Inr w1 \<Longrightarrow>
     itimer (snd w1) =
       (if 0 \<le> 1000000 sdiv sint (frequency (fst w)) \<and>
           1000000 sdiv sint (frequency (fst w)) < 1000000
        then (itimer (snd w))(timer_type (event_source (fst w)) :=
          (itimer (snd w) (timer_type (event_source (fst w))))
            (timer_slot me (snd w) :=
               \<lparr>it_interval = \<lparr>tv_sec = 0, tv_usec = 1000000 sdiv sint (frequency (fst w))\<rparr>,
                it_value = \<lparr>tv_sec = 0, tv_usec = 1000000 sdiv sint (frequency (fst w))\<rparr>\<rparr>))
        else itimer (snd w))"
  by (auto simp: StartTimer_def Let_def GetFrequency_def timeval_valid_def split: if_splits)

lemma StartTimer_returns:
  "frequency (fst w) \<noteq> 0 \<Longrightarrow> \<exists>w1. StartTimer me w = Inr w1"
  by (simp add: StartTimer_def Let_def GetFrequency_def)

lemma period_bounds:
  assumes "2 \<le> f" "f \<le> 4000"
  shows "(1000000 :: int) sdiv f = 1000000 div f" "250 \<le> (1000000 :: int) div f"
    "(1000000 :: int) div f < 1000000"
proof -
  show "(1000000 :: int) sdiv f = 1000000 div f"
    using assms by (simp add: signed_divide_int_def sgn_if)
  have "(1000000 :: int) div 4000 \<le> 1000000 div f"
    using assms by (intro zdiv_mono2) simp_all
  then show "250 \<le> (1000000 :: int) div f"
    by simp
  have "(1000000 :: int) div f \<le> 1000000 div 2"
    using assms by (intro zdiv_mono2) simp_all
  then show "(1000000 :: int) div f < 1000000"
    by simp
qed

lemma StartTimer_itimer_set:
  assumes "StartTimer me w = Inr w1"
    and "2 \<le> sint (frequency (fst w))" and "sint (frequency (fst w)) \<le> 4000"
  shows "itimer (snd w1) =
       (itimer (snd w))(timer_type (event_source (fst w)) :=
          (itimer (snd w) (timer_type (event_source (fst w))))
            (timer_slot me (snd w) :=
               \<lparr>it_interval = \<lparr>tv_sec = 0, tv_usec = 1000000 div sint (frequency (fst w))\<rparr>,
                it_value = \<lparr>tv_sec = 0, tv_usec = 1000000 div sint (frequency (fst w))\<rparr>\<rparr>))"
  using StartTimer_itimer [OF assms(1)] period_bounds [OF assms(2,3)] by simp

text \<open>
  Claim C9 says that for every frequency from 1 to 4000 starting the timer sets the
  initial delay and the repeat interval to \<open>1000000 div f\<close> microseconds.  At the frequency
  1, which the constructor accepts, \<open>StartTimer\<close> passes 0 seconds and 1000000
  microseconds; that is not a canonical time, \<^verbatim>\<open>setitimer\<close> returns -1 and sets nothing,
  \<open>StartTimer\<close> drops the result, and the timer is not running afterwards.
\<close>

theorem start_timer_sets_nothing_at_1hz:
  "frequency (fst ex_1hz) = 1 \<and>
   fst (setitimer ITIMER_PROF
          \<lparr>it_interval = \<lparr>tv_sec = 0, tv_usec = 1000000 sdiv sint (frequency (fst ex_1hz))\<rparr>,
           it_value = \<lparr>tv_sec = 0, tv_usec = 1000000 sdiv sint (frequency (fst ex_1hz))\<rparr>\<rparr>
          0 (snd ex_1hz)) = - 1 \<and>
   (\<exists>w1. StartTimer 0 ex_1hz = Inr w1 \<and>
      getitimer ITIMER_PROF 0 (snd w1) =
        \<lparr>it_interval = \<lparr>tv_sec = 0, tv_usec = 0\<rparr>, it_value = \<lparr>tv_sec = 0, tv_usec = 0\<rparr>\<rparr> \<and>
      \<not> IsTimerRunning 0 w1)"
  by (simp add: ex_1hz_def eval_defs scan_defs)

text \<open>
  At that input the two fields that \<open>IsTimerRunning\<close> reads, the seconds and the
  microseconds of \<^verbatim>\<open>it_value\<close>, are both zero after \<open>StartTimer\<close>.
\<close>

theorem start_timer_sets_nothing_at_1hz_witness:
  "\<exists>w1. StartTimer 0 ex_1hz = Inr w1 \<and>
     tv_sec (it_value (getitimer ITIMER_PROF 0 (snd w1))) = 0 \<and>
     tv_usec (it_value (getitimer ITIMER_PROF 0 (snd w1))) = 0"
proof -
  from start_timer_sets_nothing_at_1hz obtain w1 where
    "StartTimer 0 ex_1hz = Inr w1"
    "getitimer ITIMER_PROF 0 (snd w1) =
       \<lparr>it_interval = \<lparr>tv_sec = 0, tv_usec = 0\<rparr>, it_value = \<lparr>tv_sec = 0, tv_usec = 0\<rparr>\<rparr>"
    by blast
  then show ?thesis
    by (intro exI [of _ w1]) simp
qed

text \<open>
  For a frequency \<open>f\<close> from 2 to 4000, \<open>StartTimer\<close> returns and leaves the caller's
  timer with \<^verbatim>\<open>it_value\<close> and \<^verbatim>\<open>it_interval\<close> both at 0 seconds and \<open>1000000 div f\<close>
  microseconds, a period of at least 250 microseconds, so that the timer is running;
  \<open>StopTimer\<close>, for every frequency, leaves both at zero, so that it is not.
\<close>

theorem timer_period:
  assumes "2 \<le> sint (frequency (fst w))" and "sint (frequency (fst w)) \<le> 4000"
  shows "\<exists>w1. StartTimer me w = Inr w1 \<and> fst w1 = fst w \<and>
     getitimer (timer_type (event_source (fst w))) me (snd w1) =
       \<lparr>it_interval = \<lparr>tv_sec = 0, tv_usec = 1000000 div sint (frequency (fst w))\<rparr>,
        it_value = \<lparr>tv_sec = 0, tv_usec = 1000000 div sint (frequency (fst w))\<rparr>\<rparr> \<and>
     250 \<le> 1000000 div sint (frequency (fst w)) \<and>
     IsTimerRunning me w1"
proof -
  have nz: "frequency (fst w) \<noteq> 0"
    using assms(1) by auto
  then obtain w1 where s: "StartTimer me w = Inr w1"
    using StartTimer_returns by blast
  note p = period_bounds [OF assms]
  have f: "fst w1 = fst w" "timers_shared (snd w1) = timers_shared (snd w)"
    using StartTimer_Inr [OF s] by simp_all
  have g: "getitimer (timer_type (event_source (fst w))) me (snd w1) =
       \<lparr>it_interval = \<lparr>tv_sec = 0, tv_usec = 1000000 div sint (frequency (fst w))\<rparr>,
        it_value = \<lparr>tv_sec = 0, tv_usec = 1000000 div sint (frequency (fst w))\<rparr>\<rparr>"
    using StartTimer_itimer_set [OF s assms] f by (simp add: getitimer_def timer_slot_def)
  have r: "IsTimerRunning me w1"
    using g p(2) f by (simp add: IsTimerRunning_def Let_def)
  show ?thesis
    using s f(1) g p(2) r by blast
qed

theorem timer_period_example:
  "2 \<le> sint (frequency (fst ex_world)) \<and> sint (frequency (fst ex_world)) \<le> 4000 \<and>
   (\<exists>w1. StartTimer 0 ex_world = Inr w1 \<and>
      getitimer ITIMER_PROF 0 (snd w1) =
        \<lparr>it_interval = \<lparr>tv_sec = 0, tv_usec = 10000\<rparr>,
         it_value = \<lparr>tv_sec = 0, tv_usec = 10000\<rparr>\<rparr>)"
proof -
  have f: "frequency (fst ex_world) = 100" "timer_type (event_source (fst ex_world)) = ITIMER_PROF"
    by (simp_all add: ex_world_def eval_defs)
  have h1: "2 \<le> sint (frequency (fst ex_world))" and h2: "sint (frequency (fst ex_world)) \<le> 4000"
    by (simp_all add: f)
  from timer_period [OF h1 h2, of 0] obtain w1 where
    d: "StartTimer 0 ex_world = Inr w1"
       "getitimer (timer_type (event_source (fst ex_world))) 0 (snd w1) =
       \<lparr>it_interval = \<lparr>tv_sec = 0, tv_usec = 1000000 div sint (frequency (fst ex_world))\<rparr>,
        it_value = \<lparr>tv_sec = 0, tv_usec = 1000000 div sint (frequency (fst ex_world))\<rparr>\<rparr>"
    by blast
  have E: "\<exists>w1. StartTimer 0 ex_world = Inr w1 \<and>
      getitimer ITIMER_PROF 0 (snd w1) =
        \<lparr>it_interval = \<lparr>tv_sec = 0, tv_usec = 10000\<rparr>,
         it_value = \<lparr>tv_sec = 0, tv_usec = 10000\<rparr>\<rparr>"
    using d(1,2) by (intro exI [of _ w1]) (simp add: f)
  show ?thesis
    using h1 h2 E by (simp add: f)
qed

theorem stop_timer_zero:
  "getitimer (timer_type (event_source (fst w))) me (snd (StopTimer me w)) =
     \<lparr>it_interval = \<lparr>tv_sec = 0, tv_usec = 0\<rparr>, it_value = \<lparr>tv_sec = 0, tv_usec = 0\<rparr>\<rparr> \<and>
   \<not> IsTimerRunning me (StopTimer me w)"
  by (simp add: getitimer_def StopTimer_itimer IsTimerRunning_def Let_def)

subsection \<open>The hooks outside the shared state\<close>

lemma StartTimer_cong:
  assumes "StartTimer me w' = Inr ws'"
    and "frequency (fst w') = frequency (fst w)"
    and "timer_type (event_source (fst w')) = timer_type (event_source (fst w))"
    and "itimer (snd w') = itimer (snd w)"
    and "timer_slot me (snd w') = timer_slot me (snd w)"
  shows "\<exists>ws. StartTimer me w = Inr ws \<and> itimer (snd ws') = itimer (snd ws)"
proof -
  have "frequency (fst w) \<noteq> 0"
    using StartTimer_Inr [OF assms(1)] assms(2) by simp
  then obtain ws where ws: "StartTimer me w = Inr ws"
    using StartTimer_returns by blast
  have "itimer (snd ws') = itimer (snd ws)"
    using StartTimer_itimer [OF assms(1)] StartTimer_itimer [OF ws] assms(2-5) by simp
  with ws show ?thesis
    by blast
qed

lemma RegisterCallback_kernel:
  "RegisterCallback token cb cb_arg me w = Inr r \<Longrightarrow>
     (if callback_count (fst w) + 1 = 1 \<and> timer_sharing (event_source (fst w)) = TIMERS_SHARED
      then \<exists>ws. StartTimer me w = Inr ws \<and> itimer (snd (snd r)) = itimer (snd ws)
      else itimer (snd (snd r)) = itimer (snd w))"
proof -
  assume a: "RegisterCallback token cb cb_arg me w = Inr r"
  define w3 where "w3 = update_handler (\<lambda>h. h\<lparr>callback_count := callback_count h + 1\<rparr>)
      (update_handler (\<lambda>h. h\<lparr>callbacks :=
          callbacks h @ [(token, \<lparr>callback = cb, callback_arg = cb_arg\<rparr>)]\<rparr>)
        (DisableHandler w))"
  have R: "RegisterCallback token cb cb_arg me w =
      (case Timer_RegisteredCallback (callback_count (fst w3)) me w3 of
         Inl e \<Rightarrow> Inl e | Inr w4 \<Rightarrow> Inr (token, EnableHandler w4))"
    by (simp add: RegisterCallback_def Let_def w3_def)
  have w3: "callback_count (fst w3) = callback_count (fst w) + 1"
    "event_source (fst w3) = event_source (fst w)" "frequency (fst w3) = frequency (fst w)"
    "itimer (snd w3) = itimer (snd w)" "timer_slot me (snd w3) = timer_slot me (snd w)"
    by (simp_all add: w3_def)
  show ?thesis
  proof (cases "callback_count (fst w) + 1 = 1 \<and>
      timer_sharing (event_source (fst w)) = TIMERS_SHARED")
    case True
    then have "Timer_RegisteredCallback (callback_count (fst w3)) me w3 = StartTimer me w3"
      by (simp add: Timer_RegisteredCallback_def w3)
    with a R obtain w4 where w4: "StartTimer me w3 = Inr w4" "r = (token, EnableHandler w4)"
      by (auto split: sum.splits)
    from StartTimer_cong [OF w4(1), of w] w3 obtain ws where
      "StartTimer me w = Inr ws" "itimer (snd w4) = itimer (snd ws)"
      by auto
    then show ?thesis
      using True w4(2) by simp
  next
    case False
    then have "Timer_RegisteredCallback (callback_count (fst w3)) me w3 = Inr w3"
      by (auto simp: Timer_RegisteredCallback_def w3)
    with a R have "r = (token, EnableHandler w3)"
      by auto
    then show ?thesis
      using False w3 by auto
  qed
qed

lemma RegisterCallback_returns:
  "frequency (fst w) \<noteq> 0 \<or> timer_sharing (event_source (fst w)) \<noteq> TIMERS_SHARED \<Longrightarrow>
     \<exists>r. RegisterCallback token cb cb_arg me w = Inr r"
  by (auto simp: RegisterCallback_def Timer_RegisteredCallback_def Let_def StartTimer_def
      GetFrequency_def split: sum.splits)

text \<open>
  Claim C10.  While the sharing state is not \<open>TIMERS_SHARED\<close>, the two hooks return the
  state they were given for every callback count, and \<open>RegisterCallback\<close> and
  \<open>UnregisterCallback\<close> leave every interval timer and the sharing state as they were.
  The example is the state stuck in \<open>TIMERS_ONE_SET\<close>: registering the first callback from
  thread 1 starts no timer for thread 1, and unregistering it again leaves the timer that
  thread 0 started in \<open>RegisterThread\<close> running.
\<close>

theorem hooks_inert_unless_shared:
  assumes "timer_sharing (event_source (fst w)) \<noteq> TIMERS_SHARED"
  shows "Timer_RegisteredCallback n me w = Inr w \<and>
    Timer_UnregisteredCallback n me w = w \<and>
    (\<exists>r. RegisterCallback token cb cb_arg me w = Inr r \<and>
       itimer (snd (snd r)) = itimer (snd w) \<and>
       timer_sharing (event_source (fst (snd r))) = timer_sharing (event_source (fst w))) \<and>
    (\<forall>w1. UnregisterCallback token me w = Inr w1 \<longrightarrow>
       itimer (snd w1) = itimer (snd w) \<and>
       timer_sharing (event_source (fst w1)) = timer_sharing (event_source (fst w)))"
proof -
  obtain r where r: "RegisterCallback token cb cb_arg me w = Inr r"
    using RegisterCallback_returns assms by blast
  have r1: "itimer (snd (snd r)) = itimer (snd w)"
    using RegisterCallback_kernel [OF r] assms by simp
  have r2: "timer_sharing (event_source (fst (snd r))) = timer_sharing (event_source (fst w))"
    using RegisterCallback_Inr [OF r] by simp
  have u: "\<forall>w1. UnregisterCallback token me w = Inr w1 \<longrightarrow>
       itimer (snd w1) = itimer (snd w) \<and>
       timer_sharing (event_source (fst w1)) = timer_sharing (event_source (fst w))"
    using assms
    by (auto simp: UnregisterCallback_def
        dest: UnregisterCallback_loop_kernel UnregisterCallback_loop_Inr)
  show ?thesis
    using assms r r1 r2 u
    by (auto simp: Timer_RegisteredCallback_def Timer_UnregisteredCallback_def)
qed

theorem hooks_inert_unless_shared_witness:
  "timer_sharing (event_source (fst ex_one_set)) = TIMERS_ONE_SET \<and>
   callback_count (fst ex_one_set) = 0 \<and>
   IsTimerRunning 0 ex_one_set \<and> \<not> IsTimerRunning 1 ex_one_set \<and>
   (\<exists>r. RegisterCallback 10 1 2 1 ex_one_set = Inr r \<and>
      callback_count (fst (snd r)) = 1 \<and>
      IsTimerRunning 0 (snd r) \<and> \<not> IsTimerRunning 1 (snd r) \<and>
      (\<exists>w1. UnregisterCallback 10 1 (snd r) = Inr w1 \<and>
         callback_count (fst w1) = 0 \<and> IsTimerRunning 0 w1))"
proof -
  have a: "timer_sharing (event_source (fst ex_one_set)) = TIMERS_ONE_SET"
    and b: "callback_count (fst ex_one_set) = 0"
    and c: "IsTimerRunning 0 ex_one_set" and d: "\<not> IsTimerRunning 1 ex_one_set"
    by (simp_all add: ex_one_set_def eval_defs)
  have h: "timer_sharing (event_source (fst ex_one_set)) \<noteq> TIMERS_SHARED"
    by (simp add: a)
  from hooks_inert_unless_shared [OF h, of _ 1 10 1 2] obtain r where
    r: "RegisterCallback 10 1 2 1 ex_one_set = Inr r"
       "itimer (snd (snd r)) = itimer (snd ex_one_set)"
       "timer_sharing (event_source (fst (snd r))) = timer_sharing (event_source (fst ex_one_set))"
    by blast
  have es: "event_source (fst (snd r)) = event_source (fst ex_one_set)"
    and ts: "timers_shared (snd (snd r)) = timers_shared (snd ex_one_set)"
    and c1: "callback_count (fst (snd r)) = 1"
    and cs: "callbacks (fst (snd r)) = callbacks (fst ex_one_set) @ [(10, \<lparr>callback = 1, callback_arg = 2\<rparr>)]"
    using RegisterCallback_Inr [OF r(1)] b by simp_all
  have run1: "IsTimerRunning 0 (snd r)" "\<not> IsTimerRunning 1 (snd r)"
    using c d r(2) es ts by (simp_all add: IsTimerRunning_def getitimer_def timer_slot_def)
  have h1: "timer_sharing (event_source (fst (snd r))) \<noteq> TIMERS_SHARED"
    using r(3) a by simp
  have "0 <s callback_count (fst (snd r))"
    by (simp add: c1 word_sless_alt)
  moreover have "10 \<in> fst ` set (callbacks (fst (snd r)))"
    by (simp add: cs)
  ultimately obtain w1 where u: "UnregisterCallback 10 1 (snd r) = Inr w1"
    unfolding UnregisterCallback_def using UnregisterCallback_loop_found by blast
  from hooks_inert_unless_shared [OF h1, of _ 1 10] u have
    i: "itimer (snd w1) = itimer (snd (snd r))"
    by blast
  have f: "event_source (fst w1) = event_source (fst (snd r))"
       "timers_shared (snd w1) = timers_shared (snd (snd r))"
       "callback_count (fst w1) = 0"
    using u c1 by (auto simp: UnregisterCallback_def dest!: UnregisterCallback_loop_Inr)
  have run2: "IsTimerRunning 0 w1"
    using run1(1) i f by (simp add: IsTimerRunning_def getitimer_def timer_slot_def)
  have E2: "\<exists>w1. UnregisterCallback 10 1 (snd r) = Inr w1 \<and>
         callback_count (fst w1) = 0 \<and> IsTimerRunning 0 w1"
    using u f(3) run2 by (intro exI [of _ w1] conjI)
  have E1: "\<exists>r. RegisterCallback 10 1 2 1 ex_one_set = Inr r \<and>
      callback_count (fst (snd r)) = 1 \<and>
      IsTimerRunning 0 (snd r) \<and> \<not> IsTimerRunning 1 (snd r) \<and>
      (\<exists>w1. UnregisterCallback 10 1 (snd r) = Inr w1 \<and>
         callback_count (fst w1) = 0 \<and> IsTimerRunning 0 w1)"
    using r(1) c1 run1 E2 by (intro exI [of _ r] conjI)
  show ?thesis
    using a b c d E1 by (intro conjI)
qed

subsection \<open>Reset\<close>

lemma GetSignal_cong:
  "timer_type es1 = timer_type es \<Longrightarrow> GetSignal es1 = GetSignal es"
  by (simp add: GetSignal_def)

lemma step_quiet:
  assumes "quiet w" and "\<not> is_register x" and "step x w = Inr w1"
  shows "quiet w1"
proof (cases x)
  case (Op_RegisterThread me)
  with assms(3) have "Timer_RegisterThread (callback_count (fst w)) me w = Inr w1"
    by (simp add: RegisterThread_def)
  from Timer_RegisterThread_Inr [OF this] assms(1) show ?thesis
    by (simp add: quiet_def GetSignal_def)
next
  case (Op_RegisterCallback token cb cb_arg me)
  with assms(2) show ?thesis
    by (simp add: is_register_def)
next
  case (Op_UnregisterCallback token me)
  with assms(1,3) show ?thesis
    by (simp add: quiet_def UnregisterCallback_def)
next
  case (Op_Reset me)
  with assms(3) have "w1 = Reset me w"
    by simp
  then show ?thesis
    by (simp add: quiet_def Reset_simps GetSignal_def)
next
  case Op_GetState
  with assms(3) have "w1 = snd (GetState w)"
    by simp
  with assms(1) show ?thesis
    by (simp add: quiet_def GetState_def Let_def word_sless_alt)
next
  case (Op_Signal ticks sig sinfo ucontext)
  with assms(3) have "w1 = snd (deliver ticks sig sinfo ucontext w)"
    by (simp split: if_splits)
  with assms(1) show ?thesis
    by (simp add: quiet_def deliver_simps)
qed

lemma run_quiet:
  "quiet w \<Longrightarrow> \<forall>x \<in> set xs. \<not> is_register x \<Longrightarrow> run xs w = Inr w1 \<Longrightarrow> quiet w1"
proof (induction xs arbitrary: w)
  case Nil
  then show ?case by simp
next
  case (Cons x xs)
  from Cons.prems(3) obtain w2 where s: "step x w = Inr w2" and r: "run xs w2 = Inr w1"
    by (auto split: sum.splits)
  have "quiet w2"
    using step_quiet [OF Cons.prems(1) _ s] Cons.prems(2) by simp
  then show ?case
    using Cons.IH [OF _ _ r] Cons.prems(2) by simp
qed

lemma Reset_itimer:
  "itimer (snd (Reset me w)) =
     (if timer_sharing (event_source (fst w)) = TIMERS_SHARED
      then itimer (snd (StopTimer me w)) else itimer (snd w))"
  by (simp add: Reset_def Timer_Reset_def Let_def StopTimer_itimer)

lemma Reset_quiet: "quiet (Reset me w)"
  by (simp add: quiet_def Reset_simps GetSignal_def)

text \<open>
  Claim C8.  \<open>Reset\<close> empties the registry, sets \<open>callback_count\<close> to 0, puts the sharing
  state back to \<open>TIMERS_UNTOUCHED\<close> and leaves the signal ignored; the interrupt counter,
  the frequency and the timer type stay as they were.  From \<open>TIMERS_SHARED\<close> it stops the
  timer, from any other state it leaves every timer as it was.  After any operations other
  than \<open>RegisterCallback\<close> that follow and return, the registry is still empty and the
  signal handler calls no callback.
\<close>

theorem reset_effects:
  "callbacks (fst (Reset me w)) = [] \<and>
   callback_count (fst (Reset me w)) = 0 \<and>
   timer_sharing (event_source (fst (Reset me w))) = TIMERS_UNTOUCHED \<and>
   timer_type (event_source (fst (Reset me w))) = timer_type (event_source (fst w)) \<and>
   interrupts (fst (Reset me w)) = interrupts (fst w) \<and>
   frequency (fst (Reset me w)) = frequency (fst w) \<and>
   disposition (snd (Reset me w)) (GetSignal (event_source (fst w))) = SIG_IGN \<and>
   (timer_sharing (event_source (fst w)) = TIMERS_SHARED \<longrightarrow>
      itimer (snd (Reset me w)) = itimer (snd (StopTimer me w)) \<and>
      \<not> IsTimerRunning me (Reset me w)) \<and>
   (timer_sharing (event_source (fst w)) \<noteq> TIMERS_SHARED \<longrightarrow>
      itimer (snd (Reset me w)) = itimer (snd w)) \<and>
   (\<forall>xs w1 ticks sig sinfo ucontext.
      (\<forall>x \<in> set xs. \<not> is_register x) \<and> run xs (Reset me w) = Inr w1 \<longrightarrow>
        callbacks (fst w1) = [] \<and>
        fst (SignalHandler_ticks ticks sig sinfo ucontext w1) = [] \<and>
        fst (deliver ticks sig sinfo ucontext w1) = [])"
proof -
  have stop: "timer_sharing (event_source (fst w)) = TIMERS_SHARED \<longrightarrow>
      \<not> IsTimerRunning me (Reset me w)"
    by (simp add: IsTimerRunning_def Let_def getitimer_def Reset_itimer StopTimer_itimer
        Reset_simps timer_slot_def)
  have later: "\<forall>xs w1 ticks sig sinfo ucontext.
      (\<forall>x \<in> set xs. \<not> is_register x) \<and> run xs (Reset me w) = Inr w1 \<longrightarrow>
        callbacks (fst w1) = [] \<and>
        fst (SignalHandler_ticks ticks sig sinfo ucontext w1) = [] \<and>
        fst (deliver ticks sig sinfo ucontext w1) = []"
  proof (intro allI impI)
    fix xs w1 ticks sig sinfo ucontext
    assume "(\<forall>x \<in> set xs. \<not> is_register x) \<and> run xs (Reset me w) = Inr w1"
    then have "quiet w1"
      using run_quiet [OF Reset_quiet] by blast
    then show "callbacks (fst w1) = [] \<and>
        fst (SignalHandler_ticks ticks sig sinfo ucontext w1) = [] \<and>
        fst (deliver ticks sig sinfo ucontext w1) = []"
      by (simp add: quiet_def deliver_def SignalHandler_ticks_def Let_def)
  qed
  show ?thesis
    using stop later by (simp add: Reset_simps Reset_itimer)
qed

lemma ex_shared_run:
  "run [Op_RegisterThread 0, Op_RegisterThread 1, Op_RegisterCallback 10 1 2 0,
        Op_RegisterCallback 11 3 4 0] ex_world = Inr ex_shared"
  by (simp add: ex_shared_def ex_world_def eval_defs)

lemma ex_shared_facts:
  "timer_sharing (event_source (fst ex_shared)) = TIMERS_SHARED"
  "timer_type (event_source (fst ex_shared)) = ITIMER_PROF"
  "callbacks (fst ex_shared) =
     [(10, \<lparr>callback = 1, callback_arg = 2\<rparr>), (11, \<lparr>callback = 3, callback_arg = 4\<rparr>)]"
  "callback_count (fst ex_shared) = 2"
  "frequency (fst ex_shared) = 100"
  "interrupts (fst ex_shared) = 0"
  "IsTimerRunning 0 ex_shared"
  "IsTimerRunning 1 ex_shared"
  "timers_shared (snd ex_shared)"
  "disposition (snd ex_shared) SIGPROF = SA_SIGACTION"
  by (simp_all add: ex_shared_def ex_world_def eval_defs)

lemma ex_one_set_facts:
  "timer_sharing (event_source (fst ex_one_set)) = TIMERS_ONE_SET"
  "timer_type (event_source (fst ex_one_set)) = ITIMER_PROF"
  "callbacks (fst ex_one_set) = []"
  "callback_count (fst ex_one_set) = 0"
  "frequency (fst ex_one_set) = 100"
  "IsTimerRunning 0 ex_one_set"
  "\<not> IsTimerRunning 1 ex_one_set"
  "\<not> timers_shared (snd ex_one_set)"
  by (simp_all add: ex_one_set_def eval_defs)

theorem reset_effects_witness:
  "timer_sharing (event_source (fst ex_shared)) = TIMERS_SHARED \<and>
   length (callbacks (fst ex_shared)) = 2 \<and> IsTimerRunning 0 ex_shared \<and>
   callbacks (fst (Reset 0 ex_shared)) = [] \<and>
   callback_count (fst (Reset 0 ex_shared)) = 0 \<and>
   timer_sharing (event_source (fst (Reset 0 ex_shared))) = TIMERS_UNTOUCHED \<and>
   frequency (fst (Reset 0 ex_shared)) = 100 \<and>
   disposition (snd (Reset 0 ex_shared)) SIGPROF = SIG_IGN \<and>
   \<not> IsTimerRunning 0 (Reset 0 ex_shared) \<and>
   timer_sharing (event_source (fst ex_one_set)) \<noteq> TIMERS_SHARED \<and>
   IsTimerRunning 0 (Reset 0 ex_one_set) \<and>
   list_all (\<lambda>x. \<not> is_register x) [Op_RegisterThread 0, Op_GetState, Op_Signal 1 SIGPROF 7 8] \<and>
   (\<exists>w1. run [Op_RegisterThread 0, Op_GetState, Op_Signal 1 SIGPROF 7 8] (Reset 0 ex_shared)
            = Inr w1 \<and>
      fst (SignalHandler_ticks 1 SIGPROF 7 8 w1) = [] \<and>
      fst (deliver 1 SIGPROF 7 8 w1) = [])"
proof -
  note T = reset_effects [of 0 ex_shared]
  note U = reset_effects [of 0 ex_one_set]
  have g: "GetSignal (event_source (fst ex_shared)) = SIGPROF"
    by (simp add: GetSignal_def ex_shared_facts)
  have a: "callbacks (fst (Reset 0 ex_shared)) = []"
    "callback_count (fst (Reset 0 ex_shared)) = 0"
    "timer_sharing (event_source (fst (Reset 0 ex_shared))) = TIMERS_UNTOUCHED"
    "frequency (fst (Reset 0 ex_shared)) = 100"
    "disposition (snd (Reset 0 ex_shared)) SIGPROF = SIG_IGN"
    "\<not> IsTimerRunning 0 (Reset 0 ex_shared)"
    using T by (simp_all add: ex_shared_facts g)
  have ns: "timer_sharing (event_source (fst ex_one_set)) \<noteq> TIMERS_SHARED"
    by (simp add: ex_one_set_facts)
  with U have "itimer (snd (Reset 0 ex_one_set)) = itimer (snd ex_one_set)"
    and "timer_type (event_source (fst (Reset 0 ex_one_set))) = ITIMER_PROF"
    by (simp_all add: ex_one_set_facts)
  then have b: "IsTimerRunning 0 (Reset 0 ex_one_set)"
    using ex_one_set_facts(6,8)
    by (simp add: IsTimerRunning_def getitimer_def timer_slot_def Reset_simps ex_one_set_facts)
  have nr: "\<forall>x \<in> set [Op_RegisterThread 0, Op_GetState, Op_Signal 1 SIGPROF 7 8]. \<not> is_register x"
    by (simp add: is_register_def)
  have f: "frequency (fst (Reset 0 ex_shared)) \<noteq> 0"
    by (simp add: a)
  obtain w1 where r: "run [Op_RegisterThread 0, Op_GetState, Op_Signal 1 SIGPROF 7 8]
      (Reset 0 ex_shared) = Inr w1"
    by (simp add: ex_shared_def ex_world_def eval_defs)
  from T nr r have c: "fst (SignalHandler_ticks 1 SIGPROF 7 8 w1) = []"
    "fst (deliver 1 SIGPROF 7 8 w1) = []"
    by blast+
  have E: "\<exists>w1. run [Op_RegisterThread 0, Op_GetState, Op_Signal 1 SIGPROF 7 8] (Reset 0 ex_shared)
            = Inr w1 \<and>
      fst (SignalHandler_ticks 1 SIGPROF 7 8 w1) = [] \<and>
      fst (deliver 1 SIGPROF 7 8 w1) = []"
    using r c by (intro exI [of _ w1] conjI)
  have l: "length (callbacks (fst ex_shared)) = 2"
    by (simp add: ex_shared_facts)
  have nr': "list_all (\<lambda>x. \<not> is_register x)
      [Op_RegisterThread 0, Op_GetState, Op_Signal 1 SIGPROF 7 8]"
    by (simp add: is_register_def)
  show ?thesis
    using ex_shared_facts(1,7) l a ns b nr' E by (intro conjI)
qed

subsection \<open>Detection of timer sharing\<close>

lemma StartTimer_set_timer_sharing:
  assumes "StartTimer me w = Inr ws"
  shows "\<exists>ws'. StartTimer me (set_timer_sharing v w) = Inr ws' \<and>
           fst ws' = fst (set_timer_sharing v w) \<and> itimer (snd ws') = itimer (snd ws)"
proof -
  have "frequency (fst (set_timer_sharing v w)) \<noteq> 0"
    using StartTimer_Inr [OF assms] by simp
  then obtain ws' where s: "StartTimer me (set_timer_sharing v w) = Inr ws'"
    using StartTimer_returns by blast
  have "itimer (snd ws') = itimer (snd ws)"
    using StartTimer_itimer [OF s] StartTimer_itimer [OF assms] by simp
  then show ?thesis
    using s StartTimer_Inr [OF s] by blast
qed

lemma step_keeps_sharing:
  assumes "timer_sharing (event_source (fst w)) = TIMERS_SHARED \<or>
           timer_sharing (event_source (fst w)) = TIMERS_SEPARATE"
    and "\<not> is_reset x" and "step x w = Inr w1"
  shows "timer_sharing (event_source (fst w1)) = timer_sharing (event_source (fst w))"
proof (cases x)
  case (Op_RegisterThread me)
  with assms(1,3) show ?thesis
    by (auto simp: RegisterThread_def Timer_RegisterThread_def dest!: StartTimer_Inr)
next
  case (Op_RegisterCallback token cb cb_arg me)
  with assms(3) show ?thesis
    by (auto split: sum.splits dest!: RegisterCallback_Inr)
next
  case (Op_UnregisterCallback token me)
  with assms(3) show ?thesis
    by (auto simp: UnregisterCallback_def dest!: UnregisterCallback_loop_Inr)
next
  case (Op_Reset me)
  with assms(2) show ?thesis
    by (simp add: is_reset_def)
next
  case Op_GetState
  with assms(3) show ?thesis
    by (auto simp: GetState_simps)
next
  case (Op_Signal ticks sig sinfo ucontext)
  with assms(3) show ?thesis
    by (auto simp: deliver_simps split: if_splits)
qed

lemma run_keeps_sharing:
  "timer_sharing (event_source (fst w)) = TIMERS_SHARED \<or>
   timer_sharing (event_source (fst w)) = TIMERS_SEPARATE \<Longrightarrow>
   \<forall>x \<in> set xs. \<not> is_reset x \<Longrightarrow> run xs w = Inr w1 \<Longrightarrow>
   timer_sharing (event_source (fst w1)) = timer_sharing (event_source (fst w))"
proof (induction xs arbitrary: w)
  case Nil
  then show ?case by simp
next
  case (Cons x xs)
  from Cons.prems(3) obtain w2 where s: "step x w = Inr w2" and r: "run xs w2 = Inr w1"
    by (auto split: sum.splits)
  have k: "timer_sharing (event_source (fst w2)) = timer_sharing (event_source (fst w))"
    using step_keeps_sharing [OF Cons.prems(1) _ s] Cons.prems(2) by simp
  with Cons.prems(1) have "timer_sharing (event_source (fst w2)) = TIMERS_SHARED \<or>
      timer_sharing (event_source (fst w2)) = TIMERS_SEPARATE"
    by simp
  from Cons.IH [OF this _ r] Cons.prems(2) k show ?case
    by simp
qed

text \<open>
  Claim C2 says that \<open>RegisterThread\<close> starts the timer in the state Untouched, and in the
  state OneSet when no timer is observed running.  With the frequency override 1, which the
  constructor accepts, it moves from Untouched to OneSet and, for the second thread, from
  OneSet to Separate, but \<^verbatim>\<open>setitimer\<close> rejects the 1000000 microseconds that
  \<open>StartTimer\<close> passes, and no timer is running after either call.  The kernel of the
  example has one timer for the process, so the state Separate is also a wrong detection.
\<close>

theorem register_thread_starts_no_timer_at_1hz:
  "frequency (fst ex_1hz) = 1 \<and> timers_shared (snd ex_1hz) \<and>
   timer_sharing (event_source (fst ex_1hz)) = TIMERS_UNTOUCHED \<and>
   (\<exists>w1 w2. RegisterThread 0 ex_1hz = Inr w1 \<and>
      timer_sharing (event_source (fst w1)) = TIMERS_ONE_SET \<and>
      \<not> IsTimerRunning 0 w1 \<and>
      RegisterThread 1 w1 = Inr w2 \<and>
      timer_sharing (event_source (fst w2)) = TIMERS_SEPARATE \<and>
      \<not> IsTimerRunning 1 w2)"
  by (simp add: ex_1hz_def eval_defs scan_defs)

text \<open>
  At that input the two fields that \<open>IsTimerRunning\<close> reads are both zero for the first
  thread after its call, and for the second thread after its call.
\<close>

theorem register_thread_starts_no_timer_at_1hz_witness:
  "\<exists>w1 w2. RegisterThread 0 ex_1hz = Inr w1 \<and> RegisterThread 1 w1 = Inr w2 \<and>
     tv_sec (it_value (getitimer (timer_type (event_source (fst w1))) 0 (snd w1))) = 0 \<and>
     tv_usec (it_value (getitimer (timer_type (event_source (fst w1))) 0 (snd w1))) = 0 \<and>
     tv_sec (it_value (getitimer (timer_type (event_source (fst w2))) 1 (snd w2))) = 0 \<and>
     tv_usec (it_value (getitimer (timer_type (event_source (fst w2))) 1 (snd w2))) = 0"
proof -
  from register_thread_starts_no_timer_at_1hz obtain w1 w2 where
    "RegisterThread 0 ex_1hz = Inr w1" "RegisterThread 1 w1 = Inr w2"
    "\<not> IsTimerRunning 0 w1" "\<not> IsTimerRunning 1 w2"
    by blast
  then show ?thesis
    by (intro exI [of _ w1] exI [of _ w2]) (simp add: IsTimerRunning_def Let_def)
qed

lemma RegisterThread_relative:
  assumes "frequency (fst w) \<noteq> 0"
  shows "\<exists>w1 ws. RegisterThread me w = Inr w1 \<and> StartTimer me w = Inr ws \<and>
     timer_sharing (event_source (fst w1)) =
       detection_next (timer_sharing (event_source (fst w))) (IsTimerRunning me w) \<and>
     itimer (snd w1) =
       (case detection_action (timer_sharing (event_source (fst w))) (IsTimerRunning me w)
               (callback_count (fst w)) of
          Start_Timer \<Rightarrow> itimer (snd ws)
        | Stop_Timer \<Rightarrow> itimer (snd (StopTimer me w))
        | Leave_Timer \<Rightarrow> itimer (snd w)) \<and>
     callbacks (fst w1) = callbacks (fst w) \<and>
     callback_count (fst w1) = callback_count (fst w) \<and>
     frequency (fst w1) = frequency (fst w) \<and>
     interrupts (fst w1) = interrupts (fst w) \<and>
     timer_type (event_source (fst w1)) = timer_type (event_source (fst w)) \<and>
     disposition (snd w1) = disposition (snd w) \<and>
     timers_shared (snd w1) = timers_shared (snd w) \<and>
     (\<forall>xs w2.
        (timer_sharing (event_source (fst w)) = TIMERS_SHARED \<or>
         timer_sharing (event_source (fst w)) = TIMERS_SEPARATE) \<and>
        (\<forall>x \<in> set xs. \<not> is_reset x) \<and> run xs w = Inr w2 \<longrightarrow>
        timer_sharing (event_source (fst w2)) = timer_sharing (event_source (fst w)))"
proof -
  obtain ws where ws: "StartTimer me w = Inr ws"
    using StartTimer_returns [OF assms] by blast
  have stable: "\<forall>xs w2.
        (timer_sharing (event_source (fst w)) = TIMERS_SHARED \<or>
         timer_sharing (event_source (fst w)) = TIMERS_SEPARATE) \<and>
        (\<forall>x \<in> set xs. \<not> is_reset x) \<and> run xs w = Inr w2 \<longrightarrow>
        timer_sharing (event_source (fst w2)) = timer_sharing (event_source (fst w))"
    using run_keeps_sharing by blast
  have "\<exists>w1. Timer_RegisterThread (callback_count (fst w)) me w = Inr w1 \<and>
     timer_sharing (event_source (fst w1)) =
       detection_next (timer_sharing (event_source (fst w))) (IsTimerRunning me w) \<and>
     itimer (snd w1) =
       (case detection_action (timer_sharing (event_source (fst w))) (IsTimerRunning me w)
               (callback_count (fst w)) of
          Start_Timer \<Rightarrow> itimer (snd ws)
        | Stop_Timer \<Rightarrow> itimer (snd (StopTimer me w))
        | Leave_Timer \<Rightarrow> itimer (snd w))"
  proof (cases "timer_sharing (event_source (fst w))")
    case TIMERS_UNTOUCHED
    then show ?thesis
      using ws by (simp add: Timer_RegisterThread_def detection_next_def detection_action_def)
  next
    case TIMERS_ONE_SET
    show ?thesis
    proof (cases "IsTimerRunning me w")
      case True
      show ?thesis
      proof (cases "callback_count (fst w) = 0")
        case zero: True
        show ?thesis
          by (rule exI [of _ "StopTimer me (set_timer_sharing TIMERS_SHARED w)"])
            (simp add: TIMERS_ONE_SET True zero Timer_RegisterThread_def detection_next_def
              detection_action_def Let_def StopTimer_itimer)
      next
        case nonzero: False
        show ?thesis
          by (rule exI [of _ "set_timer_sharing TIMERS_SHARED w"])
            (simp add: TIMERS_ONE_SET True nonzero Timer_RegisterThread_def detection_next_def
              detection_action_def Let_def)
      qed
    next
      case False
      from StartTimer_set_timer_sharing [OF ws, of TIMERS_SEPARATE] obtain ws' where
        "StartTimer me (set_timer_sharing TIMERS_SEPARATE w) = Inr ws'"
        "fst ws' = fst (set_timer_sharing TIMERS_SEPARATE w)" "itimer (snd ws') = itimer (snd ws)"
        by blast
      with TIMERS_ONE_SET False show ?thesis
        by (simp add: Timer_RegisterThread_def detection_next_def detection_action_def)
    qed
  next
    case TIMERS_SHARED
    then show ?thesis
      by (simp add: Timer_RegisterThread_def detection_next_def detection_action_def)
  next
    case TIMERS_SEPARATE
    then show ?thesis
      using ws StartTimer_Inr [OF ws]
      by (simp add: Timer_RegisterThread_def detection_next_def detection_action_def)
  qed
  then obtain w1 where
    w1: "Timer_RegisterThread (callback_count (fst w)) me w = Inr w1"
     "timer_sharing (event_source (fst w1)) =
       detection_next (timer_sharing (event_source (fst w))) (IsTimerRunning me w)"
     "itimer (snd w1) =
       (case detection_action (timer_sharing (event_source (fst w))) (IsTimerRunning me w)
               (callback_count (fst w)) of
          Start_Timer \<Rightarrow> itimer (snd ws)
        | Stop_Timer \<Rightarrow> itimer (snd (StopTimer me w))
        | Leave_Timer \<Rightarrow> itimer (snd w))"
    by blast
  have r: "RegisterThread me w = Inr w1"
    using w1(1) by (simp add: RegisterThread_def)
  show ?thesis
    using r ws w1(2,3) Timer_RegisterThread_Inr [OF w1(1)] stable by blast
qed


text \<open>
  With a frequency from 2 to 4000 \<open>RegisterThread\<close> returns, and it is the detection
  state machine: the sharing state moves as \<open>detection_next\<close> says (Untouched to OneSet;
  OneSet to Shared when the timer is observed running and to Separate otherwise; Shared
  and Separate stay), and, as \<open>detection_action\<close> says, the timer of the caller is
  running afterwards with the period of the frequency, or is stopped (on the way to Shared,
  exactly when the callback count is 0), or every timer is as before.  No other timer and
  nothing else of the handler changes.  Once the state is Shared or Separate, no sequence
  of operations without a \<open>Reset\<close> changes it.
\<close>

theorem register_thread_state_machine:
  assumes "2 \<le> sint (frequency (fst w))" and "sint (frequency (fst w)) \<le> 4000"
  shows "\<exists>w1. RegisterThread me w = Inr w1 \<and>
     timer_sharing (event_source (fst w1)) =
       detection_next (timer_sharing (event_source (fst w))) (IsTimerRunning me w) \<and>
     (case detection_action (timer_sharing (event_source (fst w))) (IsTimerRunning me w)
             (callback_count (fst w)) of
        Start_Timer \<Rightarrow>
          getitimer (timer_type (event_source (fst w))) me (snd w1) =
            \<lparr>it_interval = \<lparr>tv_sec = 0, tv_usec = 1000000 div sint (frequency (fst w))\<rparr>,
             it_value = \<lparr>tv_sec = 0, tv_usec = 1000000 div sint (frequency (fst w))\<rparr>\<rparr> \<and>
          IsTimerRunning me w1
      | Stop_Timer \<Rightarrow>
          getitimer (timer_type (event_source (fst w))) me (snd w1) =
            \<lparr>it_interval = \<lparr>tv_sec = 0, tv_usec = 0\<rparr>,
             it_value = \<lparr>tv_sec = 0, tv_usec = 0\<rparr>\<rparr> \<and>
          \<not> IsTimerRunning me w1
      | Leave_Timer \<Rightarrow> itimer (snd w1) = itimer (snd w)) \<and>
     (\<forall>x t. (x, t) \<noteq> (timer_type (event_source (fst w)), timer_slot me (snd w)) \<longrightarrow>
        itimer (snd w1) x t = itimer (snd w) x t) \<and>
     callbacks (fst w1) = callbacks (fst w) \<and>
     callback_count (fst w1) = callback_count (fst w) \<and>
     frequency (fst w1) = frequency (fst w) \<and>
     interrupts (fst w1) = interrupts (fst w) \<and>
     timer_type (event_source (fst w1)) = timer_type (event_source (fst w)) \<and>
     disposition (snd w1) = disposition (snd w) \<and>
     timers_shared (snd w1) = timers_shared (snd w) \<and>
     (\<forall>xs w2.
        (timer_sharing (event_source (fst w)) = TIMERS_SHARED \<or>
         timer_sharing (event_source (fst w)) = TIMERS_SEPARATE) \<and>
        (\<forall>x \<in> set xs. \<not> is_reset x) \<and> run xs w = Inr w2 \<longrightarrow>
        timer_sharing (event_source (fst w2)) = timer_sharing (event_source (fst w)))"
proof -
  let ?tt = "timer_type (event_source (fst w))"
  let ?a = "detection_action (timer_sharing (event_source (fst w))) (IsTimerRunning me w)
             (callback_count (fst w))"
  have nz: "frequency (fst w) \<noteq> 0"
    using assms(1) by auto
  from RegisterThread_relative [OF nz, of me] obtain w1 ws where
    r: "RegisterThread me w = Inr w1" and ws: "StartTimer me w = Inr ws"
    and n: "timer_sharing (event_source (fst w1)) =
       detection_next (timer_sharing (event_source (fst w))) (IsTimerRunning me w)"
    and i: "itimer (snd w1) =
       (case ?a of
          Start_Timer \<Rightarrow> itimer (snd ws)
        | Stop_Timer \<Rightarrow> itimer (snd (StopTimer me w))
        | Leave_Timer \<Rightarrow> itimer (snd w))"
    and fr: "callbacks (fst w1) = callbacks (fst w)"
      "callback_count (fst w1) = callback_count (fst w)"
      "frequency (fst w1) = frequency (fst w)"
      "interrupts (fst w1) = interrupts (fst w)"
      "timer_type (event_source (fst w1)) = timer_type (event_source (fst w))"
      "disposition (snd w1) = disposition (snd w)"
      "timers_shared (snd w1) = timers_shared (snd w)"
    and st: "\<forall>xs w2.
        (timer_sharing (event_source (fst w)) = TIMERS_SHARED \<or>
         timer_sharing (event_source (fst w)) = TIMERS_SEPARATE) \<and>
        (\<forall>x \<in> set xs. \<not> is_reset x) \<and> run xs w = Inr w2 \<longrightarrow>
        timer_sharing (event_source (fst w2)) = timer_sharing (event_source (fst w))"
    by blast
  note p = period_bounds [OF assms]
  note s = StartTimer_itimer_set [OF ws assms]
  have slot: "timer_slot me (snd w1) = timer_slot me (snd w)"
    using fr(7) by (simp add: timer_slot_def)
  have eff: "case ?a of
        Start_Timer \<Rightarrow>
          getitimer ?tt me (snd w1) =
            \<lparr>it_interval = \<lparr>tv_sec = 0, tv_usec = 1000000 div sint (frequency (fst w))\<rparr>,
             it_value = \<lparr>tv_sec = 0, tv_usec = 1000000 div sint (frequency (fst w))\<rparr>\<rparr> \<and>
          IsTimerRunning me w1
      | Stop_Timer \<Rightarrow>
          getitimer ?tt me (snd w1) =
            \<lparr>it_interval = \<lparr>tv_sec = 0, tv_usec = 0\<rparr>,
             it_value = \<lparr>tv_sec = 0, tv_usec = 0\<rparr>\<rparr> \<and>
          \<not> IsTimerRunning me w1
      | Leave_Timer \<Rightarrow> itimer (snd w1) = itimer (snd w)"
  proof (cases ?a)
    case Start_Timer
    with i s have "itimer (snd w1) ?tt (timer_slot me (snd w)) =
        \<lparr>it_interval = \<lparr>tv_sec = 0, tv_usec = 1000000 div sint (frequency (fst w))\<rparr>,
         it_value = \<lparr>tv_sec = 0, tv_usec = 1000000 div sint (frequency (fst w))\<rparr>\<rparr>"
      by simp
    then show ?thesis
      using Start_Timer p(2) fr(5) slot by (simp add: getitimer_def IsTimerRunning_def Let_def)
  next
    case Stop_Timer
    with i have "itimer (snd w1) ?tt (timer_slot me (snd w)) =
        \<lparr>it_interval = \<lparr>tv_sec = 0, tv_usec = 0\<rparr>,
         it_value = \<lparr>tv_sec = 0, tv_usec = 0\<rparr>\<rparr>"
      by (simp add: StopTimer_itimer)
    then show ?thesis
      using Stop_Timer fr(5) slot by (simp add: getitimer_def IsTimerRunning_def Let_def)
  next
    case Leave_Timer
    with i show ?thesis
      by simp
  qed
  have others: "\<forall>x t. (x, t) \<noteq> (?tt, timer_slot me (snd w)) \<longrightarrow>
        itimer (snd w1) x t = itimer (snd w) x t"
    using i s by (cases ?a) (auto simp: StopTimer_itimer)
  show ?thesis
    using r n eff others fr st by blast
qed

theorem register_thread_state_machine_example:
  "2 \<le> sint (frequency (fst ex_one_set)) \<and> sint (frequency (fst ex_one_set)) \<le> 4000 \<and>
   2 \<le> sint (frequency (fst ex_shared)) \<and> sint (frequency (fst ex_shared)) \<le> 4000 \<and>
   timer_sharing (event_source (fst ex_one_set)) = TIMERS_ONE_SET \<and>
   \<not> IsTimerRunning 1 ex_one_set \<and>
   (\<exists>w1. RegisterThread 1 ex_one_set = Inr w1 \<and>
      timer_sharing (event_source (fst w1)) = TIMERS_SEPARATE \<and>
      IsTimerRunning 1 w1 \<and> IsTimerRunning 0 w1) \<and>
   timer_sharing (event_source (fst ex_shared)) = TIMERS_SHARED \<and>
   list_all (\<lambda>x. \<not> is_reset x)
     [Op_RegisterThread 2, Op_UnregisterCallback 10 0, Op_GetState, Op_Signal 1 SIGPROF 7 8] \<and>
   (\<exists>w2. run [Op_RegisterThread 2, Op_UnregisterCallback 10 0, Op_GetState,
              Op_Signal 1 SIGPROF 7 8] ex_shared = Inr w2 \<and>
      timer_sharing (event_source (fst w2)) = TIMERS_SHARED)"
proof -
  have f1: "2 \<le> sint (frequency (fst ex_one_set))"
    and g1: "sint (frequency (fst ex_one_set)) \<le> 4000"
    and f2: "2 \<le> sint (frequency (fst ex_shared))"
    and g2: "sint (frequency (fst ex_shared)) \<le> 4000"
    by (simp_all add: ex_one_set_facts ex_shared_facts)
  from register_thread_state_machine [OF f1 g1, of 1] obtain w1 where
    w1: "RegisterThread 1 ex_one_set = Inr w1"
        "timer_sharing (event_source (fst w1)) =
           detection_next (timer_sharing (event_source (fst ex_one_set)))
             (IsTimerRunning 1 ex_one_set)"
    by blast
  have s1: "timer_sharing (event_source (fst w1)) = TIMERS_SEPARATE"
    using w1(2) ex_one_set_facts(1,7) by (simp add: detection_next_def)
  have run1: "IsTimerRunning 1 w1" "IsTimerRunning 0 w1"
    using w1(1) by (auto simp: ex_one_set_def eval_defs)
  have E1: "\<exists>w1. RegisterThread 1 ex_one_set = Inr w1 \<and>
      timer_sharing (event_source (fst w1)) = TIMERS_SEPARATE \<and>
      IsTimerRunning 1 w1 \<and> IsTimerRunning 0 w1"
    using w1(1) s1 run1 by (intro exI [of _ w1] conjI)
  have nr: "\<forall>x \<in> set [Op_RegisterThread 2, Op_UnregisterCallback 10 0, Op_GetState,
      Op_Signal 1 SIGPROF 7 8]. \<not> is_reset x"
    by (simp add: is_reset_def)
  have nr': "list_all (\<lambda>x. \<not> is_reset x)
     [Op_RegisterThread 2, Op_UnregisterCallback 10 0, Op_GetState, Op_Signal 1 SIGPROF 7 8]"
    by (simp add: is_reset_def)
  obtain w2 where w2: "run [Op_RegisterThread 2, Op_UnregisterCallback 10 0, Op_GetState,
      Op_Signal 1 SIGPROF 7 8] ex_shared = Inr w2"
    by (simp add: ex_shared_def ex_world_def eval_defs)
  from register_thread_state_machine [OF f2 g2, of 0] nr w2 ex_shared_facts(1)
  have "timer_sharing (event_source (fst w2)) = timer_sharing (event_source (fst ex_shared))"
    by blast
  then have s2: "timer_sharing (event_source (fst w2)) = TIMERS_SHARED"
    by (simp add: ex_shared_facts)
  have E2: "\<exists>w2. run [Op_RegisterThread 2, Op_UnregisterCallback 10 0, Op_GetState,
              Op_Signal 1 SIGPROF 7 8] ex_shared = Inr w2 \<and>
      timer_sharing (event_source (fst w2)) = TIMERS_SHARED"
    using w2 s2 by (intro exI [of _ w2] conjI)
  show ?thesis
    using f1 g1 f2 g2 ex_one_set_facts(1,7) E1 ex_shared_facts(1) nr' E2 by (intro conjI)
qed

subsection \<open>The shared timer\<close>

lemma word_of_nat_eq_0_small:
  "n < 2 ^ 31 \<Longrightarrow> (word_of_nat n :: 32 word) = 0 \<longleftrightarrow> n = 0"
  using sint_of_nat_small [of n] by auto

lemma word_of_nat_eq_1_small:
  "n < 2 ^ 31 \<Longrightarrow> (word_of_nat n :: 32 word) = 1 \<longleftrightarrow> n = 1"
  using sint_of_nat_small [of n] by auto

lemma word_of_nat_pos_small:
  assumes "0 <s (word_of_nat n :: 32 word)" and "n \<le> 2 ^ 31"
  shows "n < 2 ^ 31"
proof (rule ccontr)
  assume "\<not> n < 2 ^ 31"
  with assms(2) have "n = 2 ^ 31"
    by simp
  with assms(1) show False
    by (simp add: word_sless_alt)
qed

lemma IsTimerRunning_shared:
  "timers_shared (snd w) \<Longrightarrow>
     IsTimerRunning me w \<longleftrightarrow>
       tv_sec (it_value (itimer (snd w) (timer_type (event_source (fst w))) 0)) \<noteq> 0 \<or>
       tv_usec (it_value (itimer (snd w) (timer_type (event_source (fst w))) 0)) \<noteq> 0"
  by (simp add: IsTimerRunning_def Let_def getitimer_def timer_slot_def)

lemma IsTimerRunning_cong:
  "timers_shared (snd w1) = timers_shared (snd w) \<Longrightarrow> itimer (snd w1) = itimer (snd w) \<Longrightarrow>
   timer_type (event_source (fst w1)) = timer_type (event_source (fst w)) \<Longrightarrow>
   IsTimerRunning me w1 = IsTimerRunning me w"
  by (simp add: IsTimerRunning_def Let_def getitimer_def timer_slot_def)

lemma IsTimerRunning_stopped:
  "timers_shared (snd w1) = timers_shared (snd w) \<Longrightarrow>
   itimer (snd w1) = itimer (snd (StopTimer me w)) \<Longrightarrow>
   timer_type (event_source (fst w1)) = timer_type (event_source (fst w)) \<Longrightarrow>
   timers_shared (snd w) \<Longrightarrow>
   \<not> IsTimerRunning t w1"
  by (simp add: IsTimerRunning_def Let_def getitimer_def timer_slot_def StopTimer_itimer)

lemma IsTimerRunning_started:
  assumes "StartTimer me w = Inr ws" and "timers_shared (snd w1) = timers_shared (snd w)"
    and "itimer (snd w1) = itimer (snd ws)"
    and "timer_type (event_source (fst w1)) = timer_type (event_source (fst w))"
    and "timers_shared (snd w)"
    and "2 \<le> sint (frequency (fst w))" and "sint (frequency (fst w)) \<le> 4000"
  shows "IsTimerRunning t w1"
proof -
  note p = period_bounds [OF assms(6,7)]
  show ?thesis
    using StartTimer_itimer_set [OF assms(1,6,7)] assms(2,3,4,5) p
    by (simp add: IsTimerRunning_def Let_def getitimer_def timer_slot_def)
qed

lemma inv_RegisterThread:
  assumes "shared_timer_inv w" and "RegisterThread me w = Inr w1"
  shows "shared_timer_inv w1"
proof -
  let ?n = "length (callbacks (fst w))"
  from assms(1) have sh: "timers_shared (snd w)" and ci: "count_inv w"
    and f: "2 \<le> sint (frequency (fst w))" "sint (frequency (fst w)) \<le> 4000"
    and i: "timer_sharing (event_source (fst w)) = TIMERS_SHARED \<and> ?n < 2 ^ 31 \<longrightarrow>
         (IsTimerRunning 0 w \<longleftrightarrow> callbacks (fst w) \<noteq> [])"
    by (simp_all add: shared_timer_inv_def)
  from ci have c: "callback_count (fst w) = word_of_nat ?n"
    by (simp add: count_inv_def)
  from assms(2) have t: "Timer_RegisterThread (callback_count (fst w)) me w = Inr w1"
    by (simp add: RegisterThread_def)
  note fr = Timer_RegisterThread_Inr [OF t]
  have base: "timers_shared (snd w1)" "count_inv w1"
    "2 \<le> sint (frequency (fst w1))" "sint (frequency (fst w1)) \<le> 4000"
    using fr sh ci f by (simp_all add: count_inv_def)
  have "timer_sharing (event_source (fst w1)) = TIMERS_SHARED \<and>
       length (callbacks (fst w1)) < 2 ^ 31 \<longrightarrow>
         (IsTimerRunning 0 w1 \<longleftrightarrow> callbacks (fst w1) \<noteq> [])"
  proof (cases "timer_sharing (event_source (fst w))")
    case TIMERS_UNTOUCHED
    with t have "timer_sharing (event_source (fst w1)) = TIMERS_ONE_SET"
      by (auto simp: Timer_RegisterThread_def split: sum.splits)
    then show ?thesis by simp
  next
    case TIMERS_ONE_SET
    show ?thesis
    proof (cases "IsTimerRunning me w")
      case True
      then have r0: "IsTimerRunning 0 w"
        using sh by (simp add: IsTimerRunning_shared)
      show ?thesis
      proof (cases "callback_count (fst w) = 0")
        case zero: True
        with t TIMERS_ONE_SET True
        have w1: "w1 = StopTimer me (set_timer_sharing TIMERS_SHARED w)"
          by (simp add: Timer_RegisterThread_def Let_def)
        have "\<not> IsTimerRunning 0 w1"
          using sh by (simp add: w1 IsTimerRunning_shared StopTimer_itimer timer_slot_def)
        moreover have "?n < 2 ^ 31 \<longrightarrow> callbacks (fst w) = []"
          using zero c by (auto simp: word_of_nat_eq_0_small)
        ultimately show ?thesis
          using fr by auto
      next
        case nonzero: False
        with t TIMERS_ONE_SET True have w1: "w1 = set_timer_sharing TIMERS_SHARED w"
          by (simp add: Timer_RegisterThread_def Let_def)
        have "IsTimerRunning 0 w1"
          using r0 sh by (simp add: w1 IsTimerRunning_shared)
        moreover have "callbacks (fst w) \<noteq> []"
          using nonzero c by auto
        ultimately show ?thesis
          using fr by auto
      qed
    next
      case False
      with t TIMERS_ONE_SET
      have "StartTimer me (set_timer_sharing TIMERS_SEPARATE w) = Inr w1"
        by (simp add: Timer_RegisterThread_def)
      from StartTimer_Inr [OF this]
      have "timer_sharing (event_source (fst w1)) = TIMERS_SEPARATE"
        by simp
      then show ?thesis by simp
    qed
  next
    case TIMERS_SHARED
    with t have "w1 = w"
      by (simp add: Timer_RegisterThread_def)
    with i show ?thesis by simp
  next
    case TIMERS_SEPARATE
    with t have "StartTimer me w = Inr w1"
      by (simp add: Timer_RegisterThread_def)
    from StartTimer_Inr [OF this] TIMERS_SEPARATE
    have "timer_sharing (event_source (fst w1)) = TIMERS_SEPARATE"
      by simp
    then show ?thesis by simp
  qed
  with base show ?thesis
    by (simp add: shared_timer_inv_def)
qed

lemma inv_RegisterCallback:
  assumes "shared_timer_inv w" and "RegisterCallback token cb cb_arg me w = Inr r"
  shows "shared_timer_inv (snd r)"
proof -
  let ?n = "length (callbacks (fst w))"
  from assms(1) have sh: "timers_shared (snd w)" and ci: "count_inv w"
    and f: "2 \<le> sint (frequency (fst w))" "sint (frequency (fst w)) \<le> 4000"
    and i: "timer_sharing (event_source (fst w)) = TIMERS_SHARED \<and> ?n < 2 ^ 31 \<longrightarrow>
         (IsTimerRunning 0 w \<longleftrightarrow> callbacks (fst w) \<noteq> [])"
    by (simp_all add: shared_timer_inv_def)
  from ci have c: "callback_count (fst w) = word_of_nat ?n"
    by (simp add: count_inv_def)
  note fr = RegisterCallback_Inr [OF assms(2)]
  note kn = RegisterCallback_kernel [OF assms(2)]
  have base: "timers_shared (snd (snd r))" "count_inv (snd r)"
    "2 \<le> sint (frequency (fst (snd r)))" "sint (frequency (fst (snd r))) \<le> 4000"
    using fr sh c f by (simp_all add: count_inv_def)
  have "timer_sharing (event_source (fst (snd r))) = TIMERS_SHARED \<and>
       length (callbacks (fst (snd r))) < 2 ^ 31 \<longrightarrow>
         (IsTimerRunning 0 (snd r) \<longleftrightarrow> callbacks (fst (snd r)) \<noteq> [])"
  proof (intro impI)
    assume a: "timer_sharing (event_source (fst (snd r))) = TIMERS_SHARED \<and>
       length (callbacks (fst (snd r))) < 2 ^ 31"
    then have S: "timer_sharing (event_source (fst w)) = TIMERS_SHARED" and n: "?n < 2 ^ 31"
      using fr by simp_all
    have "IsTimerRunning 0 (snd r)"
    proof (cases "callback_count (fst w) + 1 = 1")
      case True
      from kn True S obtain ws where ws: "StartTimer me w = Inr ws"
        and "itimer (snd (snd r)) = itimer (snd ws)"
        by auto
      then show ?thesis
        using IsTimerRunning_started [OF ws _ _ _ sh f, of "snd r"] fr by simp
    next
      case False
      then have "callbacks (fst w) \<noteq> []"
        using c by auto
      with i S n have "IsTimerRunning 0 w"
        by simp
      moreover have "itimer (snd (snd r)) = itimer (snd w)"
        using kn False by simp
      ultimately show ?thesis
        using IsTimerRunning_cong [of "snd r" w 0] fr by simp
    qed
    then show "IsTimerRunning 0 (snd r) \<longleftrightarrow> callbacks (fst (snd r)) \<noteq> []"
      using fr by simp
  qed
  with base show ?thesis
    by (simp add: shared_timer_inv_def)
qed

lemma inv_UnregisterCallback:
  assumes "shared_timer_inv w" and "UnregisterCallback token me w = Inr w1"
  shows "shared_timer_inv w1"
proof -
  let ?n = "length (callbacks (fst w))"
  from assms(1) have sh: "timers_shared (snd w)" and ci: "count_inv w"
    and f: "2 \<le> sint (frequency (fst w))" "sint (frequency (fst w)) \<le> 4000"
    and i: "timer_sharing (event_source (fst w)) = TIMERS_SHARED \<and> ?n < 2 ^ 31 \<longrightarrow>
         (IsTimerRunning 0 w \<longleftrightarrow> callbacks (fst w) \<noteq> [])"
    by (simp_all add: shared_timer_inv_def)
  from ci have c: "callback_count (fst w) = word_of_nat ?n"
    by (simp add: count_inv_def)
  from assms(2) have u: "UnregisterCallback_loop token me [] (callbacks (fst w)) w = Inr w1"
    by (simp add: UnregisterCallback_def)
  from UnregisterCallback_loop_Inr [OF u] obtain xs it ys where
    d: "callbacks (fst w) = xs @ it # ys" "callbacks (fst w1) = xs @ ys"
       "0 <s callback_count (fst w)"
       "callback_count (fst w1) = callback_count (fst w) - 1"
       "frequency (fst w1) = frequency (fst w)"
       "event_source (fst w1) = event_source (fst w)"
       "timers_shared (snd w1) = timers_shared (snd w)"
    by auto
  note kn = UnregisterCallback_loop_kernel [OF u, THEN conjunct2]
  have n: "0 < ?n" "length (callbacks (fst w1)) = ?n - 1"
    using d(1,2) by simp_all
  have c1: "callback_count (fst w1) = word_of_nat (?n - 1)"
    using d(4) c n(1) by (simp add: word_of_nat_pred)
  have base: "timers_shared (snd w1)" "count_inv w1"
    "2 \<le> sint (frequency (fst w1))" "sint (frequency (fst w1)) \<le> 4000"
    using d sh f c1 n by (simp_all add: count_inv_def)
  have "timer_sharing (event_source (fst w1)) = TIMERS_SHARED \<and>
       length (callbacks (fst w1)) < 2 ^ 31 \<longrightarrow>
         (IsTimerRunning 0 w1 \<longleftrightarrow> callbacks (fst w1) \<noteq> [])"
  proof (intro impI)
    assume a: "timer_sharing (event_source (fst w1)) = TIMERS_SHARED \<and>
       length (callbacks (fst w1)) < 2 ^ 31"
    then have S: "timer_sharing (event_source (fst w)) = TIMERS_SHARED"
      and n1: "?n - 1 < 2 ^ 31"
      using d(6) n(2) by simp_all
    from n1 have "?n \<le> 2 ^ 31"
      by arith
    with d(3) c have nlt: "?n < 2 ^ 31"
      using word_of_nat_pos_small by simp
    with i S d(1) have r: "IsTimerRunning 0 w"
      by simp
    show "IsTimerRunning 0 w1 \<longleftrightarrow> callbacks (fst w1) \<noteq> []"
    proof (cases "callback_count (fst w) - 1 = 0")
      case True
      then have "?n - 1 = 0"
        using c1 d(4) n1 by (simp add: word_of_nat_eq_0_small)
      then have e: "callbacks (fst w1) = []"
        using n(2) by simp
      have "itimer (snd w1) = itimer (snd (StopTimer me w))"
        using kn True S by simp
      then have "\<not> IsTimerRunning 0 w1"
        using IsTimerRunning_stopped [of w1 w me 0] d(6,7) sh by simp
      with e show ?thesis by simp
    next
      case False
      then have "?n - 1 \<noteq> 0"
        using c1 d(4) by auto
      then have e: "callbacks (fst w1) \<noteq> []"
        using n(2) by auto
      have "itimer (snd w1) = itimer (snd w)"
        using kn False by simp
      then have "IsTimerRunning 0 w1"
        using IsTimerRunning_cong [of w1 w 0] d(6,7) r by simp
      with e show ?thesis by simp
    qed
  qed
  with base show ?thesis
    by (simp add: shared_timer_inv_def)
qed

lemma inv_Reset: "shared_timer_inv w \<Longrightarrow> shared_timer_inv (Reset me w)"
  by (simp add: shared_timer_inv_def count_inv_def Reset_simps)

lemma inv_GetState: "shared_timer_inv w \<Longrightarrow> shared_timer_inv (snd (GetState w))"
proof -
  have "IsTimerRunning 0 (snd (GetState w)) = IsTimerRunning 0 w"
    by (rule IsTimerRunning_cong) (simp_all add: GetState_simps)
  then show "shared_timer_inv w \<Longrightarrow> shared_timer_inv (snd (GetState w))"
    by (simp add: shared_timer_inv_def count_inv_def GetState_simps)
qed

lemma inv_deliver:
  "shared_timer_inv w \<Longrightarrow> shared_timer_inv (snd (deliver ticks sig sinfo ucontext w))"
proof -
  have "IsTimerRunning 0 (snd (deliver ticks sig sinfo ucontext w)) = IsTimerRunning 0 w"
    by (rule IsTimerRunning_cong) (simp_all add: deliver_simps)
  then show "shared_timer_inv w \<Longrightarrow>
      shared_timer_inv (snd (deliver ticks sig sinfo ucontext w))"
    by (simp add: shared_timer_inv_def count_inv_def deliver_simps)
qed

lemma step_shared_timer_inv:
  "shared_timer_inv w \<Longrightarrow> step x w = Inr w1 \<Longrightarrow> shared_timer_inv w1"
  by (cases x)
    (auto split: sum.splits if_splits
      intro: inv_RegisterThread inv_RegisterCallback inv_UnregisterCallback inv_Reset
        inv_GetState inv_deliver)

lemma run_shared_timer_inv:
  "shared_timer_inv w \<Longrightarrow> run xs w = Inr w1 \<Longrightarrow> shared_timer_inv w1"
proof (induction xs arbitrary: w)
  case Nil
  then show ?case by simp
next
  case (Cons x xs)
  then show ?case
    by (auto split: sum.splits dest: step_shared_timer_inv)
qed

lemma step_frequency: "step x w = Inr w1 \<Longrightarrow> frequency (fst w1) = frequency (fst w)"
  by (cases x)
    (auto simp: RegisterThread_def UnregisterCallback_def Reset_simps GetState_simps deliver_simps
      split: sum.splits if_splits
      dest!: Timer_RegisterThread_Inr RegisterCallback_Inr UnregisterCallback_loop_Inr)

lemma run_frequency: "run xs w = Inr w1 \<Longrightarrow> frequency (fst w1) = frequency (fst w)"
proof (induction xs arbitrary: w)
  case Nil
  then show ?case by simp
next
  case (Cons x xs)
  then show ?case
    by (auto split: sum.splits dest!: step_frequency)
qed

text \<open>No sequence of operations changes the frequency.\<close>

lemma ctor_frequency_range:
  "1 \<le> sint (ctor_frequency ovf fr) \<and> sint (ctor_frequency ovf fr) \<le> 4000"
  by (auto simp: ctor_frequency_def kDefaultFrequency_def kMaxFrequency_def word_sless_alt
      split: option.splits prod.splits)

lemma ctor_shared_timer_inv:
  "timers_shared k \<Longrightarrow> 2 \<le> sint (ctor_frequency ovf fr) \<Longrightarrow>
     shared_timer_inv (ProfileHandler_ctor which ovf fr k)"
  using ctor_frequency_range [of ovf fr]
  by (simp add: shared_timer_inv_def count_inv_def ProfileHandler_ctor_def)

text \<open>
  Claim C3 says that in the state \<open>TIMERS_SHARED\<close> the shared timer is running exactly
  when \<open>callback_count\<close> is positive.  With the frequency override 1, on a kernel with one
  timer for the process that is armed when the program starts: the first \<open>RegisterThread\<close>
  starts nothing (\<^verbatim>\<open>setitimer\<close> rejects 1000000 microseconds), the second one sees the
  timer that was armed before, moves to \<open>TIMERS_SHARED\<close> and stops it, and the
  \<open>StartTimer\<close> of \<open>RegisterCallback\<close> starts nothing again.  The state is then
  \<open>TIMERS_SHARED\<close> with one callback and no timer running.
\<close>

theorem shared_timer_not_running_at_1hz:
  "timers_shared kernel_armed \<and> frequency (fst ex_1hz_armed) = 1 \<and>
   IsTimerRunning 0 ex_1hz_armed \<and>
   (\<exists>w. run [Op_RegisterThread 0, Op_RegisterThread 1, Op_RegisterCallback 10 1 2 0]
             ex_1hz_armed = Inr w \<and>
      timer_sharing (event_source (fst w)) = TIMERS_SHARED \<and>
      callback_count (fst w) = 1 \<and> length (callbacks (fst w)) = 1 \<and>
      0 <s callback_count (fst w) \<and>
      \<not> IsTimerRunning 0 w \<and> \<not> IsTimerRunning 1 w)"
  by (simp add: ex_1hz_armed_def kernel_armed_def eval_defs scan_defs)

text \<open>
  At that input the two fields that \<open>IsTimerRunning\<close> reads are both zero at the end of
  the run, for either thread, and the counter is 1.
\<close>

theorem shared_timer_not_running_at_1hz_witness:
  "\<exists>w. run [Op_RegisterThread 0, Op_RegisterThread 1, Op_RegisterCallback 10 1 2 0]
            ex_1hz_armed = Inr w \<and>
     timer_sharing (event_source (fst w)) = TIMERS_SHARED \<and>
     callback_count (fst w) = 1 \<and>
     tv_sec (it_value (getitimer (timer_type (event_source (fst w))) 0 (snd w))) = 0 \<and>
     tv_usec (it_value (getitimer (timer_type (event_source (fst w))) 0 (snd w))) = 0 \<and>
     tv_sec (it_value (getitimer (timer_type (event_source (fst w))) 1 (snd w))) = 0 \<and>
     tv_usec (it_value (getitimer (timer_type (event_source (fst w))) 1 (snd w))) = 0"
proof -
  from shared_timer_not_running_at_1hz obtain w where
    "run [Op_RegisterThread 0, Op_RegisterThread 1, Op_RegisterCallback 10 1 2 0]
       ex_1hz_armed = Inr w"
    "timer_sharing (event_source (fst w)) = TIMERS_SHARED" "callback_count (fst w) = 1"
    "\<not> IsTimerRunning 0 w" "\<not> IsTimerRunning 1 w"
    by blast
  then show ?thesis
    by (intro exI [of _ w]) (simp add: IsTimerRunning_def Let_def)
qed

text \<open>
  With a frequency from 2 to 4000 the invariant holds.  On a kernel whose interval timer is
  shared by the threads of the process, in every state with sharing state
  \<open>TIMERS_SHARED\<close> that a constructed handler reaches (with a registry of fewer than
  \<open>2^31\<close> entries, what the \<^verbatim>\<open>int32\<close> counter can count), the timer is running,
  whichever thread looks, exactly when \<open>callback_count\<close> is positive.  In that state
  \<open>RegisteredCallback\<close> starts the timer exactly when the new count is 1,
  \<open>UnregisteredCallback\<close> stops it exactly when the new count is 0, \<open>StartTimer\<close> returns
  and leaves the timer running, and \<open>StopTimer\<close> and \<open>Reset\<close> leave it not running.
\<close>

theorem shared_timer_runs_iff_callbacks:
  assumes "timers_shared k"
    and "run xs (ProfileHandler_ctor which ovf fr k) = Inr w"
    and "timer_sharing (event_source (fst w)) = TIMERS_SHARED"
    and "length (callbacks (fst w)) < 2 ^ 31"
    and "2 \<le> sint (frequency (fst w))"
  shows "(IsTimerRunning t w \<longleftrightarrow> 0 <s callback_count (fst w)) \<and>
    Timer_RegisteredCallback n me w = (if n = 1 then StartTimer me w else Inr w) \<and>
    Timer_UnregisteredCallback n me w = (if n = 0 then StopTimer me w else w) \<and>
    (\<exists>ws. StartTimer me w = Inr ws \<and> IsTimerRunning t ws) \<and>
    \<not> IsTimerRunning t (StopTimer me w) \<and>
    \<not> IsTimerRunning t (Reset me w)"
proof -
  let ?n = "length (callbacks (fst w))"
  have "frequency (fst w) = ctor_frequency ovf fr"
    using run_frequency [OF assms(2)] by (simp add: ProfileHandler_ctor_def)
  with assms(5) have "2 \<le> sint (ctor_frequency ovf fr)"
    by simp
  then have inv: "shared_timer_inv w"
    using run_shared_timer_inv [OF ctor_shared_timer_inv [OF assms(1)] assms(2)] by simp
  then have sh: "timers_shared (snd w)" and c: "callback_count (fst w) = word_of_nat ?n"
    and f: "2 \<le> sint (frequency (fst w))" "sint (frequency (fst w)) \<le> 4000"
    and i: "IsTimerRunning 0 w \<longleftrightarrow> callbacks (fst w) \<noteq> []"
    using assms(3,4) by (simp_all add: shared_timer_inv_def count_inv_def)
  have "sint (callback_count (fst w)) = int ?n"
    using c assms(4) by (simp add: sint_of_nat_small)
  then have pos: "0 <s callback_count (fst w) \<longleftrightarrow> callbacks (fst w) \<noteq> []"
    by (simp add: word_sless_alt)
  have "IsTimerRunning t w = IsTimerRunning 0 w"
    using sh by (simp add: IsTimerRunning_shared)
  with i pos have a: "IsTimerRunning t w \<longleftrightarrow> 0 <s callback_count (fst w)"
    by simp
  have "frequency (fst w) \<noteq> 0"
    using f(1) by auto
  then obtain ws where ws: "StartTimer me w = Inr ws"
    using StartTimer_returns by blast
  have "IsTimerRunning t ws"
    using IsTimerRunning_started [OF ws _ _ _ sh f, of ws] StartTimer_Inr [OF ws] by simp
  with ws have b: "\<exists>ws. StartTimer me w = Inr ws \<and> IsTimerRunning t ws"
    by blast
  have s: "\<not> IsTimerRunning t (StopTimer me w)"
    using IsTimerRunning_stopped [of "StopTimer me w" w me t] sh by simp
  have r: "\<not> IsTimerRunning t (Reset me w)"
    using IsTimerRunning_stopped [of "Reset me w" w me t] sh assms(3)
    by (simp add: Reset_simps Reset_itimer)
  show ?thesis
    using a b s r assms(3)
    by (simp add: Timer_RegisteredCallback_def Timer_UnregisteredCallback_def)
qed

theorem shared_timer_runs_iff_callbacks_example:
  "timers_shared (kernel0 True) \<and>
   run [Op_RegisterThread 0, Op_RegisterThread 1, Op_RegisterCallback 10 1 2 0,
        Op_RegisterCallback 11 3 4 0] ex_world = Inr ex_shared \<and>
   timer_sharing (event_source (fst ex_shared)) = TIMERS_SHARED \<and>
   length (callbacks (fst ex_shared)) < 2 ^ 31 \<and>
   2 \<le> sint (frequency (fst ex_shared)) \<and>
   IsTimerRunning 1 ex_shared \<and> 0 <s callback_count (fst ex_shared) \<and>
   (\<exists>w. run [Op_RegisterThread 0, Op_RegisterThread 1, Op_RegisterCallback 10 1 2 0,
             Op_RegisterCallback 11 3 4 0, Op_UnregisterCallback 10 0,
             Op_UnregisterCallback 11 1] ex_world = Inr w \<and>
       timer_sharing (event_source (fst w)) = TIMERS_SHARED \<and>
       callbacks (fst w) = [] \<and>
       \<not> 0 <s callback_count (fst w) \<and> \<not> IsTimerRunning 1 w)"
proof -
  have k: "timers_shared (kernel0 True)"
    by (simp add: kernel0_def)
  have l: "length (callbacks (fst ex_shared)) < 2 ^ 31"
    by (simp add: ex_shared_facts)
  have f2: "2 \<le> sint (frequency (fst ex_shared))"
    by (simp add: ex_shared_facts)
  note T = shared_timer_runs_iff_callbacks
    [OF k ex_shared_run [unfolded ex_world_def] ex_shared_facts(1) l f2, of 1]
  have p: "0 <s callback_count (fst ex_shared)"
    by (simp add: ex_shared_facts word_sless_alt)
  with T have r: "IsTimerRunning 1 ex_shared"
    by blast
  obtain w where w: "run [Op_RegisterThread 0, Op_RegisterThread 1, Op_RegisterCallback 10 1 2 0,
             Op_RegisterCallback 11 3 4 0, Op_UnregisterCallback 10 0,
             Op_UnregisterCallback 11 1] ex_world = Inr w"
    by (simp add: ex_world_def eval_defs)
  have wf: "timer_sharing (event_source (fst w)) = TIMERS_SHARED" "callbacks (fst w) = []"
    "callback_count (fst w) = 0" "frequency (fst w) = 100"
    using w by (auto simp: ex_world_def eval_defs)
  have fw: "2 \<le> sint (frequency (fst w))"
    by (simp add: wf)
  have lw: "length (callbacks (fst w)) < 2 ^ 31"
    by (simp add: wf)
  have np: "\<not> 0 <s callback_count (fst w)"
    by (simp add: wf)
  from shared_timer_runs_iff_callbacks [OF k w [unfolded ex_world_def] wf(1) lw fw, of 1] np
  have nr: "\<not> IsTimerRunning 1 w"
    by blast
  have E: "\<exists>w. run [Op_RegisterThread 0, Op_RegisterThread 1, Op_RegisterCallback 10 1 2 0,
             Op_RegisterCallback 11 3 4 0, Op_UnregisterCallback 10 0,
             Op_UnregisterCallback 11 1] ex_world = Inr w \<and>
       timer_sharing (event_source (fst w)) = TIMERS_SHARED \<and>
       callbacks (fst w) = [] \<and>
       \<not> 0 <s callback_count (fst w) \<and> \<not> IsTimerRunning 1 w"
    using w wf(1,2) np nr by (intro exI [of _ w] conjI)
  show ?thesis
    using k ex_shared_run ex_shared_facts(1) l f2 r p E by (intro conjI)
qed

subsection \<open>The frequency the constructor computes\<close>

text \<open>
  Claim C7 says that a positive value \<open>v\<close> of the override yields \<open>min v 4000\<close>.  The
  constructor reads the value with \<^verbatim>\<open>%u\<close> into \<^verbatim>\<open>frequency_\<close>, which is an
  \<^verbatim>\<open>int32\<close>: for the override 3000000000 the call of \<^verbatim>\<open>sscanf\<close> returns 1 and stores
  the unsigned value, \<^verbatim>\<open>frequency_\<close> reads as -1294967296, the test
  \<^verbatim>\<open>frequency_ > 0\<close> fails, and the frequency is the default 100 where the claim says
  4000.  The value is within the range of \<^verbatim>\<open>unsigned int\<close>, so the result does not
  depend on \<open>ovf\<close>.
\<close>

theorem frequency_override_beyond_int32:
  "fst (sscanf_u_c ovf ''3000000000'') = 1 \<and>
   snd (sscanf_u_c ovf ''3000000000'') = Some (word_of_nat 3000000000) \<and>
   sint (word_of_nat 3000000000 :: int32) = - 1294967296 \<and>
   ctor_frequency ovf (Some ''3000000000'') = 100 \<and>
   frequency (fst (ProfileHandler_ctor which ovf (Some ''3000000000'') k)) = 100 \<and>
   min (3000000000 :: nat) 4000 = 4000"
  by (simp add: scan_defs ProfileHandler_ctor_def)

text \<open>
  The examples of the specification, and the edges of the clamp and of \<^verbatim>\<open>int32\<close>: an
  absent, empty, non-numeric, zero or trailed value and the value -5 give 100, 50 gives 50,
  values from 4000 to \<open>2^31 - 1\<close> give 4000, and \<open>2^31\<close> gives 100.
\<close>

theorem frequency_override_examples:
  "ctor_frequency ovf None = 100 \<and>
   ctor_frequency ovf (Some '''') = 100 \<and>
   ctor_frequency ovf (Some ''abc'') = 100 \<and>
   ctor_frequency ovf (Some ''0'') = 100 \<and>
   ctor_frequency ovf (Some ''50x'') = 100 \<and>
   ctor_frequency ovf (Some ''-5'') = 100 \<and>
   ctor_frequency ovf (Some ''50'') = 50 \<and>
   ctor_frequency ovf (Some ''4000'') = 4000 \<and>
   ctor_frequency ovf (Some ''4001'') = 4000 \<and>
   ctor_frequency ovf (Some ''10000'') = 4000 \<and>
   ctor_frequency ovf (Some ''2147483647'') = 4000 \<and>
   ctor_frequency ovf (Some ''2147483648'') = 100"
  by (simp add: scan_defs)

text \<open>
  The same reading of an unsigned value as an \<^verbatim>\<open>int32\<close> lets a negative number through
  when its unsigned value is small: \<^verbatim>\<open>%u\<close> stores -4294967246 as 50.
\<close>

theorem frequency_override_negative_wraps:
  "ctor_frequency ovf (Some ''-4294967246'') = 50"
  by (simp add: scan_defs)

text \<open>
  Whatever the override is, and whatever the C library stores for a number beyond
  \<^verbatim>\<open>UINT_MAX\<close>, the frequency of a constructed handler is between 1 and 4000.
\<close>

theorem constructed_frequency_in_range:
  "1 \<le> sint (frequency (fst (ProfileHandler_ctor which ovf fr k))) \<and>
   sint (frequency (fst (ProfileHandler_ctor which ovf fr k))) \<le> 4000"
  using ctor_frequency_range [of ovf fr] by (simp add: ProfileHandler_ctor_def)

lemma isdigit_not_other:
  "isdigit c \<Longrightarrow> \<not> isspace c \<and> c \<noteq> CHR ''-'' \<and> c \<noteq> CHR ''+''"
  by (auto simp: isdigit_def isspace_def)

lemma sscanf_u_c_digits:
  assumes "ds \<noteq> []" and "\<forall>c \<in> set ds. isdigit c" and "decimal_value ds < 2 ^ 32"
  shows "sscanf_u_c ovf ds = (1, Some (word_of_nat (decimal_value ds)))"
proof -
  obtain c cs where ds: "ds = c # cs"
    using assms(1) by (cases ds) auto
  with assms(2) have c: "isdigit c"
    by simp
  have s1: "dropWhile isspace ds = ds"
    using ds c isdigit_not_other by simp
  have hd: "hd ds \<noteq> CHR ''-''" "hd ds \<noteq> CHR ''+''"
    using ds c isdigit_not_other by auto
  have tk: "takeWhile isdigit ds = ds" "dropWhile isdigit ds = []"
    using assms(2) by simp_all
  show ?thesis
    using assms(1,3) by (simp add: sscanf_u_c_def s1 hd tk Let_def)
qed

text \<open>
  An override that is a nonempty string of decimal digits with a value \<open>v\<close> from 1 to
  \<open>2^31 - 1\<close> gives the frequency \<open>min v 4000\<close>.
\<close>

theorem frequency_override_clamped:
  assumes "ds \<noteq> []" and "\<forall>c \<in> set ds. isdigit c"
    and "0 < decimal_value ds" and "decimal_value ds < 2 ^ 31"
  shows "sint (ctor_frequency ovf (Some ds)) = int (min (decimal_value ds) 4000)"
proof -
  let ?v = "decimal_value ds"
  have "?v < 2 ^ 32"
    using assms(4) by simp
  from sscanf_u_c_digits [OF assms(1,2) this]
  have s: "sscanf_u_c ovf ds = (1, Some (word_of_nat ?v))" .
  have v: "sint (word_of_nat ?v :: int32) = int ?v"
    using assms(4) by (rule sint_of_nat_small)
  show ?thesis
    using v assms(3)
    by (simp add: ctor_frequency_def s kDefaultFrequency_def kMaxFrequency_def word_sless_alt
        min_def)
qed

theorem frequency_override_clamped_witness:
  "''250'' \<noteq> [] \<and> list_all isdigit ''250'' \<and> decimal_value ''250'' = 250 \<and>
   sint (ctor_frequency ovf_truncate (Some ''250'')) = 250"
proof -
  have a: "''250'' \<noteq> []" and b: "\<forall>c \<in> set ''250''. isdigit c"
    and b': "list_all isdigit ''250''"
    and v: "decimal_value ''250'' = 250"
    by (simp_all add: isdigit_def decimal_value_def)
  have c: "0 < decimal_value ''250''" and d: "decimal_value ''250'' < 2 ^ 31"
    by (simp_all add: v)
  show ?thesis
    using frequency_override_clamped [OF a b c d, of ovf_truncate] a b' v by simp
qed

theorem frequency_never_changes:
  "run xs w = Inr w1 \<Longrightarrow> frequency (fst w1) = frequency (fst w)"
  by (rule run_frequency)

theorem frequency_never_changes_witness:
  "run [Op_RegisterThread 0, Op_RegisterThread 1, Op_RegisterCallback 10 1 2 0,
        Op_RegisterCallback 11 3 4 0] ex_world = Inr ex_shared \<and>
   frequency (fst ex_shared) = frequency (fst ex_world) \<and> frequency (fst ex_world) = 100"
proof -
  have "frequency (fst ex_world) = 100"
    by (simp add: ex_world_def eval_defs)
  then show ?thesis
    using frequency_never_changes [OF ex_shared_run] ex_shared_run by simp
qed

lemma Timer_RegisterThread_returns:
  "frequency (fst w) \<noteq> 0 \<Longrightarrow> \<exists>w1. Timer_RegisterThread c me w = Inr w1"
  by (cases "timer_sharing (event_source (fst w))")
    (simp_all add: Timer_RegisterThread_def StartTimer_def GetFrequency_def Let_def)

text \<open>
  In every state a constructed handler reaches, \<open>RegisterThread\<close> and
  \<open>RegisterCallback\<close> return, the latter with the token it was given by the allocator:
  the frequency is never 0, so \<open>StartTimer\<close> never divides by zero.
\<close>

theorem registration_returns:
  assumes "run xs (ProfileHandler_ctor which ovf fr k) = Inr w"
  shows "(\<exists>w1. RegisterThread me w = Inr w1) \<and>
    (\<exists>r. RegisterCallback token cb cb_arg me w = Inr r \<and> fst r = token)"
proof -
  have "frequency (fst w) = ctor_frequency ovf fr"
    using run_frequency [OF assms] by (simp add: ProfileHandler_ctor_def)
  with ctor_frequency_range [of ovf fr] have f: "frequency (fst w) \<noteq> 0"
    by auto
  obtain r where r: "RegisterCallback token cb cb_arg me w = Inr r"
    using RegisterCallback_returns f by blast
  with RegisterCallback_Inr [OF r]
  have "\<exists>r. RegisterCallback token cb cb_arg me w = Inr r \<and> fst r = token"
    by blast
  then show ?thesis
    using Timer_RegisterThread_returns [OF f] by (simp add: RegisterThread_def)
qed

theorem registration_returns_witness:
  "run [Op_RegisterThread 0, Op_RegisterCallback 10 1 2 0, Op_RegisterCallback 11 3 4 0] ex_world
     = Inr ex_registered \<and>
   (\<exists>w1. RegisterThread 1 ex_registered = Inr w1) \<and>
   (\<exists>r. RegisterCallback 12 5 6 1 ex_registered = Inr r \<and> fst r = 12)"
  using registration_returns [OF ex_registered_run [unfolded ex_world_def], of 1 12 5 6]
    ex_registered_run
  by simp

end
